theory Spec2Isabelle
  imports Complex_Main "HOL-Library.Word" "HOL-Library.List_Lexorder" "HOL-Library.Log_Nat"
begin

section \<open>Node identities\<close>

text \<open>
  A \<^verbatim>\<open>storj.NodeID\<close> is a fixed array of 32 bytes; the type below has exactly these
  values, so a malformed identity cannot be passed where the Go code takes a
  \<^verbatim>\<open>storj.NodeID\<close>. The database column \<^verbatim>\<open>node_id\<close> is a blob (a byte slice of any
  length).
\<close>

type_synonym byte = "8 word"

typedef NodeID = "{bs :: byte list. length bs = 32}"
  by (rule exI [of _ "replicate 32 0"]) simp

datatype error =
    ErrEmptyNode
  | ErrNodeNotFound
  | ErrNoRows
  | ErrNodeID
  | ErrMissingInfo
  | ResourceExhausted int int
  | StoreError string
  | Wrap error
  | Combine error error

text \<open>A Go call either returns or panics (here: a nil pointer dereference).\<close>

datatype 'a outcome = Panic | Return 'a

text \<open>
  Modelled from the spec: package \<^verbatim>\<open>storj\<close> (the identity type, its \<^verbatim>\<open>Bytes\<close>,
  \<^verbatim>\<open>IsZero\<close> and \<^verbatim>\<open>NodeIDFromBytes\<close>) is not among the sources; identities are
  fixed-length opaque byte sequences with a defined zero value.
\<close>

definition Bytes :: "NodeID \<Rightarrow> byte list" where
  "Bytes i = Rep_NodeID i"

definition IsZero :: "NodeID \<Rightarrow> bool" where
  "IsZero i = (Bytes i = replicate 32 0)"

definition NodeIDFromBytes :: "byte list \<Rightarrow> error + NodeID" where
  "NodeIDFromBytes b = (if length b \<noteq> 32 then Inl ErrNodeID else Inr (Abs_NodeID b))"

definition zeroID :: NodeID where
  "zeroID = Abs_NodeID (replicate 32 0)"

text \<open>An identity whose last byte is \<open>b\<close> and whose other bytes are zero.\<close>

definition mkID :: "byte \<Rightarrow> NodeID" where
  "mkID b = Abs_NodeID (replicate 31 0 @ [b])"

section \<open>The node-info value (package pb)\<close>

text \<open>
  The protobuf structs, with the fields this code reads and writes. A pointer field that
  may be nil is an option. \<^verbatim>\<open>int64\<close> and the enum types are integers (no arithmetic is
  done on them here, only comparison and storage). The \<^verbatim>\<open>float64\<close> ratios of the
  statistics are only stored and compared; they are rationals.
\<close>

record pb_NodeAddress =
  a_Transport :: int
  a_Address :: string

record pb_NodeMetadata =
  m_Email :: string
  m_Wallet :: string

record pb_NodeRestrictions =
  r_FreeBandwidth :: int
  r_FreeDisk :: int

record pb_NodeStats =
  s_NodeId :: NodeID
  s_Latency_90 :: int
  s_AuditSuccessRatio :: rat
  s_UptimeRatio :: rat
  s_AuditCount :: int
  s_AuditSuccessCount :: int
  s_UptimeCount :: int
  s_UptimeSuccessCount :: int

record pb_Node =
  n_Id :: NodeID
  n_Type :: int
  n_Address :: "pb_NodeAddress option"
  n_Metadata :: "pb_NodeMetadata option"
  n_Restrictions :: "pb_NodeRestrictions option"
  n_Reputation :: "pb_NodeStats option"

text \<open>The zero values \<^verbatim>\<open>&pb.NodeAddress{}\<close>, \<^verbatim>\<open>&pb.NodeMetadata{}\<close>, \<^verbatim>\<open>&pb.NodeStats{}\<close>.\<close>

definition zero_NodeAddress :: pb_NodeAddress where
  "zero_NodeAddress = \<lparr>a_Transport = 0, a_Address = []\<rparr>"

definition zero_NodeMetadata :: pb_NodeMetadata where
  "zero_NodeMetadata = \<lparr>m_Email = [], m_Wallet = []\<rparr>"

definition zero_NodeStats :: pb_NodeStats where
  "zero_NodeStats = \<lparr>s_NodeId = zeroID, s_Latency_90 = 0, s_AuditSuccessRatio = 0,
     s_UptimeRatio = 0, s_AuditCount = 0, s_AuditSuccessCount = 0, s_UptimeCount = 0,
     s_UptimeSuccessCount = 0\<rparr>"

section \<open>The stored row and the store (package dbx)\<close>

record OverlayCacheNode =
  NodeId :: "byte list"
  NodeType :: int
  Address :: string
  Protocol :: int
  OperatorEmail :: string
  OperatorWallet :: string
  FreeBandwidth :: int
  FreeDisk :: int
  Latency90 :: int
  AuditSuccessRatio :: rat
  AuditUptimeRatio :: rat
  AuditCount :: int
  AuditSuccessCount :: int
  UptimeCount :: int
  UptimeSuccessCount :: int

text \<open>
  \<^verbatim>\<open>dbx.OverlayCacheNode_Update_Fields\<close>: a field that the caller did not set is left
  as it is in the row.
\<close>

record OverlayCacheNode_Update_Fields =
  u_Address :: "string option"
  u_Protocol :: "int option"
  u_OperatorEmail :: "string option"
  u_OperatorWallet :: "string option"
  u_FreeBandwidth :: "int option"
  u_FreeDisk :: "int option"
  u_Latency90 :: "int option"
  u_AuditSuccessRatio :: "rat option"
  u_AuditUptimeRatio :: "rat option"
  u_AuditCount :: "int option"
  u_AuditSuccessCount :: "int option"
  u_UptimeCount :: "int option"
  u_UptimeSuccessCount :: "int option"

text \<open>
  The statements the code sends to the store. Whether a statement fails for a reason of
  the store's own (connection, I/O) is an input of the model: \<open>fault\<close> gives, for each
  statement, the error it fails with, if any.
\<close>

datatype db_call =
    Open_call
  | Commit_call
  | Rollback_call
  | Get_call "byte list"
  | Create_call "byte list"
  | Update_call "byte list"
  | Limited_call
  | Query_reputable
  | Query_new

record DB =
  rows :: "OverlayCacheNode list"
  fault :: "db_call \<Rightarrow> error option"

definition no_fault :: "db_call \<Rightarrow> error option" where
  "no_fault = (\<lambda>c. None)"

text \<open>
  The two selection statements are SQLite text (\<^verbatim>\<open>==\<close>, \<^verbatim>\<open>?\<close> parameters, a possibly
  empty \<^verbatim>\<open>NOT IN ()\<close> list). There a negative \<^verbatim>\<open>LIMIT\<close> puts no bound on the number of
  rows and a negative \<^verbatim>\<open>OFFSET\<close> skips none.
\<close>

definition sql_LIMIT :: "int \<Rightarrow> 'a list \<Rightarrow> 'a list" where
  "sql_LIMIT n xs = (if n < 0 then xs else take (nat n) xs)"

definition sql_OFFSET :: "int \<Rightarrow> 'a list \<Rightarrow> 'a list" where
  "sql_OFFSET n xs = (if n < 0 then xs else drop (nat n) xs)"

text \<open>
  \<^verbatim>\<open>cache.db.Query\<close>: the rows of \<^verbatim>\<open>overlay_cache_nodes\<close> that satisfy the WHERE
  clause, in the table's order (the statements have no ORDER BY), up to the LIMIT.
\<close>

definition db_Query ::
  "DB \<Rightarrow> db_call \<Rightarrow> (OverlayCacheNode \<Rightarrow> bool) \<Rightarrow> int \<Rightarrow> error + OverlayCacheNode list" where
  "db_Query db c wh n =
     (case fault db c of
        Some e \<Rightarrow> Inl e
      | None \<Rightarrow> Inr (sql_LIMIT n (filter wh (rows db))))"

text \<open>
  Modelled from the spec: the generated package \<^verbatim>\<open>dbx\<close> (open transaction, get by
  identity, create, update by identity, limited listing, commit, rollback) is not among
  the sources. One row per identity: a create for an identity that has a row fails. A get
  for an identity without a row fails with \<^verbatim>\<open>sql.ErrNoRows\<close>.
\<close>

definition db_Open :: "DB \<Rightarrow> error + DB" where
  "db_Open db = (case fault db Open_call of Some e \<Rightarrow> Inl e | None \<Rightarrow> Inr db)"

definition tx_Commit :: "DB \<Rightarrow> DB \<Rightarrow> error option \<times> DB" where
  "tx_Commit db tx = (case fault tx Commit_call of Some e \<Rightarrow> (Some e, db) | None \<Rightarrow> (None, tx))"

definition tx_Rollback :: "DB \<Rightarrow> error option" where
  "tx_Rollback tx = fault tx Rollback_call"

definition Get_OverlayCacheNode_By_NodeId :: "DB \<Rightarrow> byte list \<Rightarrow> error + OverlayCacheNode" where
  "Get_OverlayCacheNode_By_NodeId db i =
     (case fault db (Get_call i) of
        Some e \<Rightarrow> Inl e
      | None \<Rightarrow>
          (case find (\<lambda>r. NodeId r = i) (rows db) of
             None \<Rightarrow> Inl ErrNoRows
           | Some r \<Rightarrow> Inr r))"

definition Create_OverlayCacheNode :: "DB \<Rightarrow> OverlayCacheNode \<Rightarrow> error + DB" where
  "Create_OverlayCacheNode db r =
     (case fault db (Create_call (NodeId r)) of
        Some e \<Rightarrow> Inl e
      | None \<Rightarrow>
          if NodeId r \<in> set (map NodeId (rows db))
          then Inl (StoreError ''UNIQUE constraint failed: overlay_cache_nodes.node_id'')
          else Inr (db\<lparr>rows := rows db @ [r]\<rparr>))"

definition set_field :: "'a option \<Rightarrow> 'a \<Rightarrow> 'a" where
  "set_field u old = (case u of None \<Rightarrow> old | Some v \<Rightarrow> v)"

definition apply_update :: "OverlayCacheNode_Update_Fields \<Rightarrow> OverlayCacheNode \<Rightarrow> OverlayCacheNode" where
  "apply_update u r =
     \<lparr>NodeId = NodeId r, NodeType = NodeType r,
      Address = set_field (u_Address u) (Address r),
      Protocol = set_field (u_Protocol u) (Protocol r),
      OperatorEmail = set_field (u_OperatorEmail u) (OperatorEmail r),
      OperatorWallet = set_field (u_OperatorWallet u) (OperatorWallet r),
      FreeBandwidth = set_field (u_FreeBandwidth u) (FreeBandwidth r),
      FreeDisk = set_field (u_FreeDisk u) (FreeDisk r),
      Latency90 = set_field (u_Latency90 u) (Latency90 r),
      AuditSuccessRatio = set_field (u_AuditSuccessRatio u) (AuditSuccessRatio r),
      AuditUptimeRatio = set_field (u_AuditUptimeRatio u) (AuditUptimeRatio r),
      AuditCount = set_field (u_AuditCount u) (AuditCount r),
      AuditSuccessCount = set_field (u_AuditSuccessCount u) (AuditSuccessCount r),
      UptimeCount = set_field (u_UptimeCount u) (UptimeCount r),
      UptimeSuccessCount = set_field (u_UptimeSuccessCount u) (UptimeSuccessCount r)\<rparr>"

definition Update_OverlayCacheNode_By_NodeId ::
  "DB \<Rightarrow> byte list \<Rightarrow> OverlayCacheNode_Update_Fields \<Rightarrow> error + DB" where
  "Update_OverlayCacheNode_By_NodeId db i u =
     (case fault db (Update_call i) of
        Some e \<Rightarrow> Inl e
      | None \<Rightarrow> Inr (db\<lparr>rows := map (\<lambda>r. if NodeId r = i then apply_update u r else r) (rows db)\<rparr>))"

text \<open>
  Modelled from the spec: the limited listing returns the rows with identity at or after
  the cursor \<open>cur\<close>, ordered by identity ascending (bytewise), after skipping \<open>off\<close> of
  them and up to \<open>lmt\<close>.
\<close>

definition Limited_OverlayCacheNode_By_NodeId_GreaterOrEqual ::
  "DB \<Rightarrow> byte list \<Rightarrow> int \<Rightarrow> int \<Rightarrow> error + OverlayCacheNode list" where
  "Limited_OverlayCacheNode_By_NodeId_GreaterOrEqual db cur lmt off =
     (case fault db Limited_call of
        Some e \<Rightarrow> Inl e
      | None \<Rightarrow>
          Inr (sql_LIMIT lmt (sql_OFFSET off
                 (sort_key NodeId (filter (\<lambda>r. cur \<le> NodeId r) (rows db))))))"

text \<open>\<^verbatim>\<open>Error.Wrap\<close> keeps nil; \<^verbatim>\<open>errs.Combine\<close> of an error and nil is that error.\<close>

definition Error_Wrap :: "error option \<Rightarrow> error option" where
  "Error_Wrap e = map_option Wrap e"

definition errs_Combine :: "error \<Rightarrow> error option \<Rightarrow> error" where
  "errs_Combine e r = (case r of None \<Rightarrow> e | Some e' \<Rightarrow> Combine e e')"

section \<open>Result assembly\<close>

text \<open>
  \<^verbatim>\<open>convertOverlayNode\<close>: the stored row as a node-info value. An empty address, an
  empty email together with an empty wallet, two negative resource floors and a negative
  latency each clear their sub-group.
\<close>

definition convertOverlayNode :: "OverlayCacheNode option \<Rightarrow> error + pb_Node" where
  "convertOverlayNode info_opt =
     (case info_opt of
        None \<Rightarrow> Inl ErrMissingInfo
      | Some info \<Rightarrow>
          (case NodeIDFromBytes (NodeId info) of
             Inl err \<Rightarrow> Inl err
           | Inr i \<Rightarrow>
               (let node = \<lparr>n_Id = i, n_Type = NodeType info,
                      n_Address = Some \<lparr>a_Transport = Protocol info, a_Address = Address info\<rparr>,
                      n_Metadata = Some \<lparr>m_Email = OperatorEmail info, m_Wallet = OperatorWallet info\<rparr>,
                      n_Restrictions = Some \<lparr>r_FreeBandwidth = FreeBandwidth info,
                                              r_FreeDisk = FreeDisk info\<rparr>,
                      n_Reputation = Some \<lparr>s_NodeId = i, s_Latency_90 = Latency90 info,
                         s_AuditSuccessRatio = AuditSuccessRatio info,
                         s_UptimeRatio = AuditUptimeRatio info,
                         s_AuditCount = AuditCount info,
                         s_AuditSuccessCount = AuditSuccessCount info,
                         s_UptimeCount = UptimeCount info,
                         s_UptimeSuccessCount = UptimeSuccessCount info\<rparr>\<rparr>;
                    node = (if Address info = [] then node\<lparr>n_Address := None\<rparr> else node);
                    node = (if OperatorEmail info = [] \<and> OperatorWallet info = []
                            then node\<lparr>n_Metadata := None\<rparr> else node);
                    node = (if FreeBandwidth info < 0 \<and> FreeDisk info < 0
                            then node\<lparr>n_Restrictions := None\<rparr> else node);
                    node = (if Latency90 info < 0 then node\<lparr>n_Reputation := None\<rparr> else node)
                in Inr node)))"

section \<open>Selection\<close>

text \<open>
  The new-node percentage is multiplied in \<^verbatim>\<open>float64\<close>, so its type is modelled with its
  rounding: a \<^verbatim>\<open>float64\<close> is a rational that binary64 represents (\<open>Finite\<close>), an infinity
  or NaN (the sign of a zero plays no part below). \<open>round64\<close> rounds a rational to the
  nearest binary64 value, ties to the even significand: 53 bits of significand, exponents
  of the last bit from \<open>- 1074\<close> (subnormal) up, overflow to an infinity from \<open>2 ^ 1024\<close>.
\<close>

datatype float64 = Finite rat | PosInf | NegInf | NaN

definition pow2 :: "int \<Rightarrow> rat" where
  "pow2 k = (if 0 \<le> k then 2 ^ nat k else 1 / 2 ^ nat (- k))"

text \<open>For a positive rational, the exponent of its leading bit.\<close>

definition ilog2 :: "rat \<Rightarrow> int" where
  "ilog2 x =
     (case quotient_of x of
        (p, q) \<Rightarrow> (let k = bitlen p - bitlen q in if pow2 k \<le> x then k else k - 1))"

definition round_half_even :: "rat \<Rightarrow> int" where
  "round_half_even x =
     (let f = \<lfloor>x\<rfloor>; d = x - of_int f
      in if d < 1 / 2 then f else if 1 / 2 < d then f + 1 else if even f then f else f + 1)"

definition round64 :: "rat \<Rightarrow> float64" where
  "round64 x =
     (if x = 0 then Finite 0
      else
        (let a = \<bar>x\<bar>;
             e = max (ilog2 a - 52) (- 1074);
             m = round_half_even (a / pow2 e);
             y = of_int m * pow2 e
         in if pow2 1024 \<le> y then (if x < 0 then NegInf else PosInf)
            else Finite (if x < 0 then - y else y)))"

text \<open>The conversion \<^verbatim>\<open>float64(n)\<close> of an integer and the product of two \<^verbatim>\<open>float64\<close>.\<close>

definition float64_of_int64 :: "int \<Rightarrow> float64" where
  "float64_of_int64 n = round64 (of_int n)"

fun float64_mul :: "float64 \<Rightarrow> float64 \<Rightarrow> float64" where
  "float64_mul NaN _ = NaN"
| "float64_mul _ NaN = NaN"
| "float64_mul (Finite x) (Finite y) = round64 (x * y)"
| "float64_mul (Finite x) PosInf = (if x = 0 then NaN else if 0 < x then PosInf else NegInf)"
| "float64_mul (Finite x) NegInf = (if x = 0 then NaN else if 0 < x then NegInf else PosInf)"
| "float64_mul PosInf (Finite y) = (if y = 0 then NaN else if 0 < y then PosInf else NegInf)"
| "float64_mul NegInf (Finite y) = (if y = 0 then NaN else if 0 < y then NegInf else PosInf)"
| "float64_mul PosInf PosInf = PosInf"
| "float64_mul PosInf NegInf = NegInf"
| "float64_mul NegInf PosInf = NegInf"
| "float64_mul NegInf NegInf = PosInf"

text \<open>
  \<^verbatim>\<open>pb.OverlayOptions\<close> and \<^verbatim>\<open>overlay.FilterNodesRequest\<close>, with the fields
  \<^verbatim>\<open>FilterNodes\<close> reads, and the file's own \<^verbatim>\<open>getNodesRequest\<close>.
\<close>

record pb_OverlayOptions =
  o_Amount :: int
  o_Restrictions :: "pb_NodeRestrictions option"
  o_ExcludedNodes :: "NodeID list"

record FilterNodesRequest =
  MinNodes :: int
  MinReputation :: "pb_NodeStats option"
  Opts :: "pb_OverlayOptions option"
  NewNodePercentage :: float64
  NewNodeAuditThreshold :: int

record getNodesRequest =
  minReputation :: "pb_NodeStats option"
  freeBandwidth :: int
  freeDisk :: int
  excluded :: "NodeID list"
  reputableNodeAmount :: int
  newNodeAmount :: int
  newNodeAuditThreshold :: int

text \<open>The nil-safe getter \<^verbatim>\<open>GetAmount\<close>.\<close>

definition GetAmount :: "pb_OverlayOptions option \<Rightarrow> int" where
  "GetAmount opts = (case opts of None \<Rightarrow> 0 | Some x \<Rightarrow> o_Amount x)"

text \<open>
  Go's conversion \<^verbatim>\<open>int64(x)\<close> of a float: the fraction is discarded. Where the result
  does not fit (or \<open>x\<close> is an infinity or NaN) the language leaves the value to the
  implementation; amd64 gives the least \<^verbatim>\<open>int64\<close>, which is what is written here.
\<close>

definition int64_of_float64 :: "float64 \<Rightarrow> int" where
  "int64_of_float64 f =
     (case f of
        Finite x \<Rightarrow>
          (let t = (if 0 \<le> x then \<lfloor>x\<rfloor> else \<lceil>x\<rceil>)
           in if - (2 ^ 63) \<le> t \<and> t < 2 ^ 63 then t else - (2 ^ 63))
      | _ \<Rightarrow> - (2 ^ 63))"

text \<open>
  \<^verbatim>\<open>rows.Scan\<close> in \<^verbatim>\<open>sqlRowsToNodes\<close> fills the eleven selected columns of a fresh
  \<^verbatim>\<open>dbx.OverlayCacheNode\<close>; protocol, operator email, operator wallet and latency are not
  selected and keep their zero values.
\<close>

definition Scan :: "OverlayCacheNode \<Rightarrow> OverlayCacheNode" where
  "Scan r =
     \<lparr>NodeId = NodeId r, NodeType = NodeType r, Address = Address r, Protocol = 0,
      OperatorEmail = [], OperatorWallet = [],
      FreeBandwidth = FreeBandwidth r, FreeDisk = FreeDisk r, Latency90 = 0,
      AuditSuccessRatio = AuditSuccessRatio r, AuditUptimeRatio = AuditUptimeRatio r,
      AuditCount = AuditCount r, AuditSuccessCount = AuditSuccessCount r,
      UptimeCount = UptimeCount r, UptimeSuccessCount = UptimeSuccessCount r\<rparr>"

fun sqlRowsToNodes_loop :: "OverlayCacheNode list \<Rightarrow> pb_Node list \<Rightarrow> error + pb_Node list" where
  "sqlRowsToNodes_loop [] nodes = Inr nodes"
| "sqlRowsToNodes_loop (r # rs) nodes =
     (case convertOverlayNode (Some (Scan r)) of
        Inl err \<Rightarrow> Inl err
      | Inr node \<Rightarrow> sqlRowsToNodes_loop rs (nodes @ [node]))"

definition sqlRowsToNodes :: "OverlayCacheNode list \<Rightarrow> error + pb_Node list" where
  "sqlRowsToNodes rs = sqlRowsToNodes_loop rs []"

text \<open>\<^verbatim>\<open>sliceOfCopies\<close>: a slice of \<open>count\<close> empty strings, each slot then overwritten.\<close>

definition sliceOfCopies :: "string \<Rightarrow> nat \<Rightarrow> string list" where
  "sliceOfCopies val count = fold (\<lambda>i slice. slice[i := val]) [0..<count] (replicate count [])"

text \<open>
  The WHERE clauses of the two statements. The \<^verbatim>\<open>NOT IN\<close> list has one placeholder for
  each copy that \<^verbatim>\<open>sliceOfCopies\<close> returns; they are bound to the first arguments, the
  bytes of the excluded identities.
\<close>

definition reputable_where ::
  "byte list list \<Rightarrow> int \<Rightarrow> rat \<Rightarrow> int \<Rightarrow> rat \<Rightarrow> int \<Rightarrow> int \<Rightarrow> int \<Rightarrow> OverlayCacheNode \<Rightarrow> bool" where
  "reputable_where notin auditCount auditSuccessRatio uptimeCount uptimeRatio fb fd nodeType r =
     (NodeId r \<notin> set notin
      \<and> AuditCount r \<ge> auditCount
      \<and> AuditSuccessRatio r \<ge> auditSuccessRatio
      \<and> UptimeCount r \<ge> uptimeCount
      \<and> AuditUptimeRatio r \<ge> uptimeRatio
      \<and> FreeBandwidth r \<ge> fb
      \<and> FreeDisk r \<ge> fd
      \<and> NodeType r = nodeType)"

definition new_where ::
  "byte list list \<Rightarrow> int \<Rightarrow> int \<Rightarrow> int \<Rightarrow> int \<Rightarrow> OverlayCacheNode \<Rightarrow> bool" where
  "new_where notin auditThreshold fb fd nodeType r =
     (NodeId r \<notin> set notin
      \<and> AuditCount r < auditThreshold
      \<and> FreeBandwidth r \<ge> fb
      \<and> FreeDisk r \<ge> fd
      \<and> NodeType r = nodeType)"

definition findReputableNodesQuery ::
  "DB \<Rightarrow> getNodesRequest \<Rightarrow> (error + OverlayCacheNode list) outcome" where
  "findReputableNodesQuery cache req =
     (case minReputation req of
        None \<Rightarrow> Panic
      | Some rep \<Rightarrow>
          (let auditCount = (if newNodeAuditThreshold req > s_AuditCount rep
                             then newNodeAuditThreshold req else s_AuditCount rep);
               auditSuccessRatio = s_AuditSuccessRatio rep;
               uptimeCount = s_UptimeCount rep;
               uptimeRatio = s_UptimeRatio rep;
               nodeAmt = reputableNodeAmount req;
               nodeTypeStorage = 2;
               args = map Bytes (excluded req);
               notin = take (length (sliceOfCopies ''?'' (length (excluded req)))) args
           in Return (db_Query cache Query_reputable
                (reputable_where notin auditCount auditSuccessRatio uptimeCount uptimeRatio
                   (freeBandwidth req) (freeDisk req) nodeTypeStorage)
                nodeAmt)))"

definition findNewNodesQuery :: "DB \<Rightarrow> getNodesRequest \<Rightarrow> error + OverlayCacheNode list" where
  "findNewNodesQuery cache req =
     (let nodeTypeStorage = 2;
          args = map Bytes (excluded req);
          notin = take (length (sliceOfCopies ''?'' (length (excluded req)))) args
      in db_Query cache Query_new
           (new_where notin (newNodeAuditThreshold req) (freeBandwidth req) (freeDisk req)
              nodeTypeStorage)
           (newNodeAmount req))"

text \<open>
  The deferred \<^verbatim>\<open>rows.Close()\<close> assigns to a local variable after the results are set
  (the results are unnamed), so it does not change what is returned.
\<close>

definition getReputableNodes :: "DB \<Rightarrow> getNodesRequest \<Rightarrow> (error + pb_Node list) outcome" where
  "getReputableNodes cache req =
     (case findReputableNodesQuery cache req of
        Panic \<Rightarrow> Panic
      | Return (Inl err) \<Rightarrow> Return (Inl err)
      | Return (Inr rs) \<Rightarrow> Return (sqlRowsToNodes rs))"

definition getNewNodes :: "DB \<Rightarrow> getNodesRequest \<Rightarrow> error + pb_Node list" where
  "getNewNodes cache req =
     (case findNewNodesQuery cache req of
        Inl err \<Rightarrow> Inl err
      | Inr rs \<Rightarrow> sqlRowsToNodes rs)"

text \<open>
  \<^verbatim>\<open>FilterNodes\<close> returns a slice and an error; a nil slice is the empty list. The
  functions \<open>getReputableReq\<close> and \<open>getNewReq\<close> are the two request values it builds, and
  \<open>provenTarget\<close> is its local \<^verbatim>\<open>reputableNodeAmount\<close>.
  \<^verbatim>\<open>req.Opts.GetRestrictions().FreeBandwidth\<close> dereferences the restrictions of the
  options, and \<^verbatim>\<open>findReputableNodesQuery\<close> the minimum reputation: where one is nil the
  call panics.
\<close>

definition getReputableReq :: "FilterNodesRequest \<Rightarrow> pb_OverlayOptions \<Rightarrow> pb_NodeRestrictions \<Rightarrow> int \<Rightarrow> getNodesRequest" where
  "getReputableReq req opts restr amount =
     \<lparr>minReputation = MinReputation req,
      freeBandwidth = r_FreeBandwidth restr,
      freeDisk = r_FreeDisk restr,
      excluded = o_ExcludedNodes opts,
      reputableNodeAmount = amount,
      newNodeAmount = 0,
      newNodeAuditThreshold = NewNodeAuditThreshold req\<rparr>"

definition getNewReq :: "FilterNodesRequest \<Rightarrow> pb_OverlayOptions \<Rightarrow> pb_NodeRestrictions \<Rightarrow> int \<Rightarrow> getNodesRequest" where
  "getNewReq req opts restr amount =
     \<lparr>minReputation = None,
      freeBandwidth = r_FreeBandwidth restr,
      freeDisk = r_FreeDisk restr,
      excluded = o_ExcludedNodes opts,
      reputableNodeAmount = 0,
      newNodeAmount = amount,
      newNodeAuditThreshold = NewNodeAuditThreshold req\<rparr>"

definition provenTarget :: "FilterNodesRequest \<Rightarrow> int" where
  "provenTarget req = (if MinNodes req \<le> 0 then GetAmount (Opts req) else MinNodes req)"

definition FilterNodes :: "DB \<Rightarrow> FilterNodesRequest \<Rightarrow> (pb_Node list \<times> error option) outcome" where
  "FilterNodes cache req =
     (let reputableNodeAmount = provenTarget req in
      case Opts req of
        None \<Rightarrow> Panic
      | Some opts \<Rightarrow>
      (case o_Restrictions opts of
        None \<Rightarrow> Panic
      | Some restr \<Rightarrow>
      (case getReputableNodes cache (getReputableReq req opts restr reputableNodeAmount) of
        Panic \<Rightarrow> Panic
      | Return (Inl err) \<Rightarrow> Return ([], Some err)
      | Return (Inr reputableNodes) \<Rightarrow>
      (let newNodeAmount = int64_of_float64
             (float64_mul (float64_of_int64 reputableNodeAmount) (NewNodePercentage req)) in
       case getNewNodes cache (getNewReq req opts restr newNodeAmount) of
         Inl err \<Rightarrow> Return ([], Some err)
       | Inr newNodes \<Rightarrow>
           (let allNodes = [] @ reputableNodes;
                allNodes = allNodes @ newNodes
            in if int (length reputableNodes) < reputableNodeAmount
               then Return (allNodes,
                      Some (ResourceExhausted reputableNodeAmount (int (length reputableNodes))))
               else Return (allNodes, None))))))"

section \<open>Lookup, enumeration and update\<close>

definition Get :: "DB \<Rightarrow> NodeID \<Rightarrow> error + pb_Node" where
  "Get cache i =
     (if IsZero i then Inl ErrEmptyNode
      else case Get_OverlayCacheNode_By_NodeId cache (Bytes i) of
             Inl err \<Rightarrow> (if err = ErrNoRows then Inl ErrNodeNotFound else Inl err)
           | Inr node \<Rightarrow> convertOverlayNode (Some node))"

text \<open>
  \<^verbatim>\<open>GetAll\<close>: a slice of nil pointers, one for each id; the loop fills the slot of each
  id whose lookup gives no error.
\<close>

definition GetAll :: "DB \<Rightarrow> NodeID list \<Rightarrow> pb_Node option list \<times> error option" where
  "GetAll cache ids =
     (let infos = fold (\<lambda>(i, x) infos.
                     case Get cache x of
                       Inl err \<Rightarrow> infos
                     | Inr info \<Rightarrow> infos[i := Some info])
                   (enumerate 0 ids) (replicate (length ids) None)
      in (infos, None))"

fun convert_each :: "OverlayCacheNode list \<Rightarrow> error + pb_Node list" where
  "convert_each [] = Inr []"
| "convert_each (r # rs) =
     (case convertOverlayNode (Some r) of
        Inl err \<Rightarrow> Inl err
      | Inr node \<Rightarrow> (case convert_each rs of Inl err \<Rightarrow> Inl err | Inr nodes \<Rightarrow> Inr (node # nodes)))"

text \<open>
  \<^verbatim>\<open>Paginate\<close>; \<open>LookupLimit\<close> stands for the constant \<^verbatim>\<open>storage.LookupLimit\<close>, which is
  not among the sources. The result is the page, the flag and the error.
\<close>

definition Paginate :: "int \<Rightarrow> DB \<Rightarrow> int \<Rightarrow> int \<Rightarrow> pb_Node list \<times> bool \<times> error option" where
  "Paginate LookupLimit cache off lmt =
     (let cur = zeroID;
          more = True;
          lmt = (if lmt \<le> 0 \<or> lmt > LookupLimit then LookupLimit else lmt)
      in case Limited_OverlayCacheNode_By_NodeId_GreaterOrEqual cache (Bytes cur) lmt off of
           Inl err \<Rightarrow> ([], False, Some err)
         | Inr dbxInfos \<Rightarrow>
             (let more = (if int (length dbxInfos) < lmt then False else more)
              in case convert_each dbxInfos of
                   Inl err \<Rightarrow> ([], False, Some err)
                 | Inr infos \<Rightarrow> (infos, more, None)))"

text \<open>
  \<^verbatim>\<open>Update\<close> returns an error (or nil) and leaves the store in a new state. The lookup
  inside the transaction decides between create and update: any error of the lookup leads
  to create. The update branch reads \<^verbatim>\<open>info.Reputation\<close> itself, not the defaulted local
  \<^verbatim>\<open>reputation\<close>, and panics where it is nil.
\<close>

definition Update :: "DB \<Rightarrow> pb_Node option \<Rightarrow> (error option \<times> DB) outcome" where
  "Update cache info_opt =
     (case info_opt of
        None \<Rightarrow> Return (Some ErrEmptyNode, cache)
      | Some info \<Rightarrow>
      if IsZero (n_Id info) then Return (Some ErrEmptyNode, cache)
      else
      (case db_Open cache of
        Inl err \<Rightarrow> Return (Error_Wrap (Some err), cache)
      | Inr tx \<Rightarrow>
      (let got = Get_OverlayCacheNode_By_NodeId tx (Bytes (n_Id info));
           address = (case n_Address info of None \<Rightarrow> zero_NodeAddress | Some a \<Rightarrow> a);
           metadata = (case n_Metadata info of None \<Rightarrow> zero_NodeMetadata | Some m \<Rightarrow> m);
           restrictions = (case n_Restrictions info of
                             None \<Rightarrow> \<lparr>r_FreeBandwidth = - 1, r_FreeDisk = - 1\<rparr>
                           | Some r \<Rightarrow> r);
           reputation = (case n_Reputation info of None \<Rightarrow> zero_NodeStats | Some s \<Rightarrow> s)
       in case got of
            Inl err \<Rightarrow>
              (case Create_OverlayCacheNode tx
                      \<lparr>NodeId = Bytes (n_Id info),
                       NodeType = n_Type info,
                       Address = a_Address address,
                       Protocol = a_Transport address,
                       OperatorEmail = m_Email metadata,
                       OperatorWallet = m_Wallet metadata,
                       FreeBandwidth = r_FreeBandwidth restrictions,
                       FreeDisk = r_FreeDisk restrictions,
                       Latency90 = s_Latency_90 reputation,
                       AuditSuccessRatio = s_AuditSuccessRatio reputation,
                       AuditUptimeRatio = s_UptimeRatio reputation,
                       AuditCount = s_AuditCount reputation,
                       AuditSuccessCount = s_AuditSuccessCount reputation,
                       UptimeCount = s_UptimeCount reputation,
                       UptimeSuccessCount = s_UptimeSuccessCount reputation\<rparr> of
                 Inl err \<Rightarrow> Return (Error_Wrap (Some (errs_Combine err (tx_Rollback tx))), cache)
               | Inr tx' \<Rightarrow>
                   (case tx_Commit cache tx' of (e, db') \<Rightarrow> Return (Error_Wrap e, db')))
          | Inr _ \<Rightarrow>
              (case n_Reputation info of
                 None \<Rightarrow> Panic
               | Some info_Reputation \<Rightarrow>
                   (let update =
                          \<lparr>u_Address = Some (a_Address address),
                           u_Protocol = Some (a_Transport address),
                           u_OperatorEmail = None,
                           u_OperatorWallet = None,
                           u_FreeBandwidth = None,
                           u_FreeDisk = None,
                           u_Latency90 = Some (s_Latency_90 info_Reputation),
                           u_AuditSuccessRatio = Some (s_AuditSuccessRatio info_Reputation),
                           u_AuditUptimeRatio = Some (s_UptimeRatio info_Reputation),
                           u_AuditCount = Some (s_AuditCount info_Reputation),
                           u_AuditSuccessCount = Some (s_AuditSuccessCount info_Reputation),
                           u_UptimeCount = Some (s_UptimeCount info_Reputation),
                           u_UptimeSuccessCount = Some (s_UptimeSuccessCount info_Reputation)\<rparr>;
                        update = (case n_Metadata info of
                                    None \<Rightarrow> update
                                  | Some m \<Rightarrow> update\<lparr>u_OperatorEmail := Some (m_Email m),
                                                      u_OperatorWallet := Some (m_Wallet m)\<rparr>);
                        update = (case n_Restrictions info of
                                    None \<Rightarrow> update
                                  | Some _ \<Rightarrow>
                                      update\<lparr>u_FreeBandwidth := Some (r_FreeBandwidth restrictions),
                                             u_FreeDisk := Some (r_FreeDisk restrictions)\<rparr>)
                    in case Update_OverlayCacheNode_By_NodeId tx (Bytes (n_Id info)) update of
                         Inl err \<Rightarrow>
                           Return (Error_Wrap (Some (errs_Combine err (tx_Rollback tx))), cache)
                       | Inr tx' \<Rightarrow>
                           (case tx_Commit cache tx' of (e, db') \<Rightarrow> Return (Error_Wrap e, db')))))))"

section \<open>Well-formed stores and example values\<close>

text \<open>
  A row written through \<^verbatim>\<open>Update\<close> holds the 32 bytes of an identity; such a row is
  well-formed.
\<close>

definition wf_row :: "OverlayCacheNode \<Rightarrow> bool" where
  "wf_row r = (length (NodeId r) = 32)"

text \<open>
  A storage node with identity \<open>mkID b\<close>, audit count \<open>c\<close>, and 100 units of free bandwidth
  and disk; a store without faults.
\<close>

definition example_row :: "byte \<Rightarrow> int \<Rightarrow> OverlayCacheNode" where
  "example_row b c =
     \<lparr>NodeId = Bytes (mkID b), NodeType = 2, Address = ''a'', Protocol = 0,
      OperatorEmail = [], OperatorWallet = [], FreeBandwidth = 100, FreeDisk = 100,
      Latency90 = 0, AuditSuccessRatio = 1, AuditUptimeRatio = 1, AuditCount = c,
      AuditSuccessCount = c, UptimeCount = c, UptimeSuccessCount = c\<rparr>"

definition example_db :: "OverlayCacheNode list \<Rightarrow> DB" where
  "example_db rs = \<lparr>rows = rs, fault = no_fault\<rparr>"

section \<open>The selection predicates in the words of the specification\<close>

text \<open>
  The product of the proven target and the new-node percentage as \<^verbatim>\<open>FilterNodes\<close>
  computes it, in \<^verbatim>\<open>float64\<close>, and the new-node quota, its conversion to an integer.
\<close>

definition newNodeProduct :: "FilterNodesRequest \<Rightarrow> float64" where
  "newNodeProduct req = float64_mul (float64_of_int64 (provenTarget req)) (NewNodePercentage req)"

definition newNodeQuota :: "FilterNodesRequest \<Rightarrow> int" where
  "newNodeQuota req = int64_of_float64 (newNodeProduct req)"

text \<open>
  A proven row: a storage node whose audit count reaches both the minimum reputation's and
  the new-node threshold, whose ratios, uptime count and free resources reach the requested
  floors, and whose identity is not excluded.
\<close>

definition proven_predicate ::
  "FilterNodesRequest \<Rightarrow> pb_OverlayOptions \<Rightarrow> pb_NodeRestrictions \<Rightarrow> pb_NodeStats \<Rightarrow> OverlayCacheNode \<Rightarrow> bool" where
  "proven_predicate req opts restr rep r =
     (NodeType r = 2
      \<and> AuditCount r \<ge> max (s_AuditCount rep) (NewNodeAuditThreshold req)
      \<and> AuditSuccessRatio r \<ge> s_AuditSuccessRatio rep
      \<and> UptimeCount r \<ge> s_UptimeCount rep
      \<and> AuditUptimeRatio r \<ge> s_UptimeRatio rep
      \<and> FreeBandwidth r \<ge> r_FreeBandwidth restr
      \<and> FreeDisk r \<ge> r_FreeDisk restr
      \<and> NodeId r \<notin> set (map Bytes (o_ExcludedNodes opts)))"

text \<open>A new row: the same resource, type and exclusion constraints, below the threshold.\<close>

definition new_predicate ::
  "FilterNodesRequest \<Rightarrow> pb_OverlayOptions \<Rightarrow> pb_NodeRestrictions \<Rightarrow> OverlayCacheNode \<Rightarrow> bool" where
  "new_predicate req opts restr r =
     (NodeType r = 2
      \<and> AuditCount r < NewNodeAuditThreshold req
      \<and> FreeBandwidth r \<ge> r_FreeBandwidth restr
      \<and> FreeDisk r \<ge> r_FreeDisk restr
      \<and> NodeId r \<notin> set (map Bytes (o_ExcludedNodes opts)))"

text \<open>
  The same floors, read from a returned node-info value. A node carries no restrictions
  only where both stored floors are negative; a proven row of that kind exists only for a
  request whose two floors are negative.
\<close>

definition node_meets ::
  "FilterNodesRequest \<Rightarrow> pb_OverlayOptions \<Rightarrow> pb_NodeRestrictions \<Rightarrow> pb_NodeStats \<Rightarrow> pb_Node
     \<Rightarrow> bool" where
  "node_meets req opts restr rep n =
     (n_Type n = 2
      \<and> n_Id n \<notin> set (o_ExcludedNodes opts)
      \<and> (case n_Restrictions n of
            None \<Rightarrow> r_FreeBandwidth restr < 0 \<and> r_FreeDisk restr < 0
          | Some rs \<Rightarrow>
              r_FreeBandwidth rs \<ge> r_FreeBandwidth restr
              \<and> r_FreeDisk rs \<ge> r_FreeDisk restr)
      \<and> (case n_Reputation n of
            None \<Rightarrow> False
          | Some s \<Rightarrow>
              s_AuditCount s \<ge> max (s_AuditCount rep) (NewNodeAuditThreshold req)
              \<and> s_AuditSuccessRatio s \<ge> s_AuditSuccessRatio rep
              \<and> s_UptimeCount s \<ge> s_UptimeCount rep
              \<and> s_UptimeRatio s \<ge> s_UptimeRatio rep))"


text \<open>\<open>scanned r n\<close>: the node \<open>n\<close> is what \<^verbatim>\<open>sqlRowsToNodes\<close> makes of the row \<open>r\<close>.\<close>

abbreviation scanned :: "OverlayCacheNode \<Rightarrow> pb_Node \<Rightarrow> bool" where
  "scanned r n \<equiv> convertOverlayNode (Some (Scan r)) = Inr n"

text \<open>
  The node that a selection returns for \<open>example_row b c\<close>; a request with resource floors
  10, no reputation floors, new-node threshold 5 and the new-node percentage \<open>pct\<close> (a
  rational that binary64 represents); the \<^verbatim>\<open>float64\<close> nearest to one third, which Go prints
  as 0.3333333333333333; a store where one statement fails.
\<close>

definition example_node :: "byte \<Rightarrow> int \<Rightarrow> pb_Node" where
  "example_node b c =
     \<lparr>n_Id = mkID b, n_Type = 2,
      n_Address = Some \<lparr>a_Transport = 0, a_Address = ''a''\<rparr>,
      n_Metadata = None,
      n_Restrictions = Some \<lparr>r_FreeBandwidth = 100, r_FreeDisk = 100\<rparr>,
      n_Reputation = Some \<lparr>s_NodeId = mkID b, s_Latency_90 = 0, s_AuditSuccessRatio = 1,
         s_UptimeRatio = 1, s_AuditCount = c, s_AuditSuccessCount = c, s_UptimeCount = c,
         s_UptimeSuccessCount = c\<rparr>\<rparr>"

definition example_restr :: pb_NodeRestrictions where
  "example_restr = \<lparr>r_FreeBandwidth = 10, r_FreeDisk = 10\<rparr>"

definition example_opts :: "int \<Rightarrow> NodeID list \<Rightarrow> pb_OverlayOptions" where
  "example_opts amount excl =
     \<lparr>o_Amount = amount, o_Restrictions = Some example_restr, o_ExcludedNodes = excl\<rparr>"

definition example_req :: "int \<Rightarrow> int \<Rightarrow> rat \<Rightarrow> NodeID list \<Rightarrow> FilterNodesRequest" where
  "example_req minNodes amount pct excl =
     \<lparr>MinNodes = minNodes, MinReputation = Some zero_NodeStats,
      Opts = Some (example_opts amount excl), NewNodePercentage = Finite pct,
      NewNodeAuditThreshold = 5\<rparr>"

definition third64 :: rat where
  "third64 = 6004799503160661 / 18014398509481984"

definition faulty_db :: "OverlayCacheNode list \<Rightarrow> db_call \<Rightarrow> error \<Rightarrow> DB" where
  "faulty_db rs c e = \<lparr>rows = rs, fault = no_fault(c := Some e)\<rparr>"

section \<open>Pagination and round trip in the words of the specification\<close>

text \<open>The limit that \<^verbatim>\<open>Paginate\<close> uses: the caller's, clamped to \<open>LookupLimit\<close>.\<close>

definition effective_limit :: "int \<Rightarrow> int \<Rightarrow> int" where
  "effective_limit LookupLimit lmt = (if 0 < lmt \<and> lmt \<le> LookupLimit then lmt else LookupLimit)"

text \<open>
  A node-info value none of whose present sub-groups holds the value that
  \<^verbatim>\<open>convertOverlayNode\<close> reads as absence, and whose reputation, if present, names the
  node itself.
\<close>

definition reproducible :: "pb_Node \<Rightarrow> bool" where
  "reproducible info =
     ((case n_Address info of None \<Rightarrow> True | Some a \<Rightarrow> a_Address a \<noteq> [])
      \<and> (case n_Metadata info of None \<Rightarrow> True
          | Some m \<Rightarrow> \<not> (m_Email m = [] \<and> m_Wallet m = []))
      \<and> (case n_Restrictions info of None \<Rightarrow> True
          | Some r \<Rightarrow> \<not> (r_FreeBandwidth r < 0 \<and> r_FreeDisk r < 0))
      \<and> (case n_Reputation info of None \<Rightarrow> True
          | Some s \<Rightarrow> s_NodeId s = n_Id info \<and> 0 \<le> s_Latency_90 s))"

text \<open>The reputation that is read back: the input's, or the zero statistics of the node.\<close>

definition reputation_read_back :: "pb_Node \<Rightarrow> pb_NodeStats" where
  "reputation_read_back info =
     (case n_Reputation info of
        None \<Rightarrow> zero_NodeStats\<lparr>s_NodeId := n_Id info\<rparr>
      | Some s \<Rightarrow> s)"

text \<open>The row that the create branch of \<^verbatim>\<open>Update\<close> writes for a node-info value.\<close>

definition created_row :: "pb_Node \<Rightarrow> OverlayCacheNode" where
  "created_row info =
     (let address = (case n_Address info of None \<Rightarrow> zero_NodeAddress | Some a \<Rightarrow> a);
          metadata = (case n_Metadata info of None \<Rightarrow> zero_NodeMetadata | Some m \<Rightarrow> m);
          restrictions = (case n_Restrictions info of
                            None \<Rightarrow> \<lparr>r_FreeBandwidth = - 1, r_FreeDisk = - 1\<rparr>
                          | Some r \<Rightarrow> r);
          reputation = (case n_Reputation info of None \<Rightarrow> zero_NodeStats | Some s \<Rightarrow> s)
      in \<lparr>NodeId = Bytes (n_Id info), NodeType = n_Type info,
          Address = a_Address address, Protocol = a_Transport address,
          OperatorEmail = m_Email metadata, OperatorWallet = m_Wallet metadata,
          FreeBandwidth = r_FreeBandwidth restrictions, FreeDisk = r_FreeDisk restrictions,
          Latency90 = s_Latency_90 reputation,
          AuditSuccessRatio = s_AuditSuccessRatio reputation,
          AuditUptimeRatio = s_UptimeRatio reputation,
          AuditCount = s_AuditCount reputation,
          AuditSuccessCount = s_AuditSuccessCount reputation,
          UptimeCount = s_UptimeCount reputation,
          UptimeSuccessCount = s_UptimeSuccessCount reputation\<rparr>)"

text \<open>
  Example values: five rows in no particular order; a node-info value with no optional
  sub-group and its stored row; a fully populated one and its stored row; a message that
  carries only resource floors; the statistics stored in \<open>example_row b c\<close>.
\<close>

definition five_rows :: "OverlayCacheNode list" where
  "five_rows = [example_row 5 0, example_row 3 9, example_row 1 9, example_row 4 0, example_row 2 9]"

definition absent_node :: "byte \<Rightarrow> pb_Node" where
  "absent_node b =
     \<lparr>n_Id = mkID b, n_Type = 2, n_Address = None, n_Metadata = None,
      n_Restrictions = None, n_Reputation = None\<rparr>"

definition absent_row :: "byte \<Rightarrow> OverlayCacheNode" where
  "absent_row b =
     \<lparr>NodeId = Bytes (mkID b), NodeType = 2, Address = [], Protocol = 0,
      OperatorEmail = [], OperatorWallet = [], FreeBandwidth = - 1, FreeDisk = - 1,
      Latency90 = 0, AuditSuccessRatio = 0, AuditUptimeRatio = 0, AuditCount = 0,
      AuditSuccessCount = 0, UptimeCount = 0, UptimeSuccessCount = 0\<rparr>"

definition full_node :: "byte \<Rightarrow> pb_Node" where
  "full_node b =
     \<lparr>n_Id = mkID b, n_Type = 2,
      n_Address = Some \<lparr>a_Transport = 1, a_Address = ''10.0.0.1:7777''\<rparr>,
      n_Metadata = Some \<lparr>m_Email = ''op@example.test'', m_Wallet = []\<rparr>,
      n_Restrictions = Some \<lparr>r_FreeBandwidth = 0, r_FreeDisk = - 1\<rparr>,
      n_Reputation = Some \<lparr>s_NodeId = mkID b, s_Latency_90 = 0, s_AuditSuccessRatio = 1/2,
         s_UptimeRatio = 1, s_AuditCount = 4, s_AuditSuccessCount = 2, s_UptimeCount = 3,
         s_UptimeSuccessCount = 3\<rparr>\<rparr>"

definition full_row :: "byte \<Rightarrow> OverlayCacheNode" where
  "full_row b =
     \<lparr>NodeId = Bytes (mkID b), NodeType = 2, Address = ''10.0.0.1:7777'', Protocol = 1,
      OperatorEmail = ''op@example.test'', OperatorWallet = [], FreeBandwidth = 0,
      FreeDisk = - 1, Latency90 = 0, AuditSuccessRatio = 1/2, AuditUptimeRatio = 1,
      AuditCount = 4, AuditSuccessCount = 2, UptimeCount = 3, UptimeSuccessCount = 3\<rparr>"

definition floors_only_node :: "byte \<Rightarrow> pb_Node" where
  "floors_only_node b =
     \<lparr>n_Id = mkID b, n_Type = 2, n_Address = None, n_Metadata = None,
      n_Restrictions = Some \<lparr>r_FreeBandwidth = 50, r_FreeDisk = 60\<rparr>,
      n_Reputation = None\<rparr>"

definition stored_stats :: "byte \<Rightarrow> int \<Rightarrow> pb_NodeStats" where
  "stored_stats b c =
     \<lparr>s_NodeId = mkID b, s_Latency_90 = 0, s_AuditSuccessRatio = 1, s_UptimeRatio = 1,
      s_AuditCount = c, s_AuditSuccessCount = c, s_UptimeCount = c, s_UptimeSuccessCount = c\<rparr>"

section \<open>Identities, slices and row conversion\<close>

lemma length_Bytes: "length (Bytes i) = 32"
  using Rep_NodeID [of i] by (simp add: Bytes_def)

lemma Bytes_inject: "(Bytes i = Bytes j) = (i = j)"
  by (simp add: Bytes_def Rep_NodeID_inject)

lemma Bytes_Abs: "length b = 32 \<Longrightarrow> Bytes (Abs_NodeID b) = b"
  by (simp add: Bytes_def Abs_NodeID_inverse)

lemma NodeIDFromBytes_Bytes: "NodeIDFromBytes (Bytes i) = Inr i"
  by (simp add: NodeIDFromBytes_def length_Bytes) (simp add: Bytes_def Rep_NodeID_inverse)

lemma NodeIDFromBytes_Inr: "NodeIDFromBytes b = Inr i \<Longrightarrow> Bytes i = b"
  by (auto simp: NodeIDFromBytes_def Bytes_Abs split: if_splits)

lemma Bytes_mkID: "Bytes (mkID b) = replicate 31 0 @ [b]"
  by (simp add: mkID_def Bytes_Abs)

lemma Bytes_zeroID: "Bytes zeroID = replicate 32 0"
  by (simp add: zeroID_def Bytes_Abs)

lemma mkID_inject: "(mkID a = mkID b) = (a = b)"
  using Bytes_inject [of "mkID a" "mkID b"] by (simp add: Bytes_mkID)

lemma IsZero_mkID: "IsZero (mkID b) = (b = 0)"
proof -
  have "replicate (31 + 1) (0::byte) = replicate 31 0 @ replicate 1 0"
    by (rule replicate_add)
  then have "replicate 32 (0::byte) = replicate 31 0 @ [0]" by simp
  then show ?thesis by (simp add: IsZero_def Bytes_mkID)
qed

lemma IsZero_zeroID: "IsZero zeroID"
  by (simp add: IsZero_def Bytes_zeroID)

lemma fold_update_replicate:
  "k \<le> n \<Longrightarrow> fold (\<lambda>i s. s[i := v]) [0..<k] (replicate n d) = replicate k v @ replicate (n - k) d"
proof (induction k)
  case 0
  then show ?case by simp
next
  case (Suc k)
  then have "fold (\<lambda>i s. s[i := v]) [0..<Suc k] (replicate n d)
      = (replicate k v @ replicate (n - k) d)[k := v]" by simp
  also have "\<dots> = replicate k v @ (replicate (n - k) d)[0 := v]"
    by (simp add: list_update_append)
  also have "replicate (n - k) d = d # replicate (n - Suc k) d"
    using Suc.prems by (cases "n - k") auto
  finally show ?case by (simp add: replicate_append_same)
qed

lemma sliceOfCopies_replicate: "sliceOfCopies val count = replicate count val"
  by (simp add: sliceOfCopies_def fold_update_replicate)

lemma zero_le_bytes: "replicate (length b) (0::byte) \<le> b"
  by (induction b) (auto simp: word_neq_0_conv)

lemma convert_Scan_Inr:
  assumes "convertOverlayNode (Some (Scan r)) = Inr n"
  shows "Bytes (n_Id n) = NodeId r" and "n_Type n = NodeType r"
    and "n_Metadata n = None"
    and "n_Reputation n = Some \<lparr>s_NodeId = n_Id n, s_Latency_90 = 0,
           s_AuditSuccessRatio = AuditSuccessRatio r, s_UptimeRatio = AuditUptimeRatio r,
           s_AuditCount = AuditCount r, s_AuditSuccessCount = AuditSuccessCount r,
           s_UptimeCount = UptimeCount r, s_UptimeSuccessCount = UptimeSuccessCount r\<rparr>"
    and "n_Restrictions n =
           (if FreeBandwidth r < 0 \<and> FreeDisk r < 0 then None
            else Some \<lparr>r_FreeBandwidth = FreeBandwidth r, r_FreeDisk = FreeDisk r\<rparr>)"
  using assms
  by (auto simp: convertOverlayNode_def Scan_def Let_def dest: NodeIDFromBytes_Inr
      split: sum.splits if_splits)

lemma convert_Inr_id:
  "convertOverlayNode (Some r) = Inr n \<Longrightarrow> Bytes (n_Id n) = NodeId r"
  by (auto simp: convertOverlayNode_def Let_def dest: NodeIDFromBytes_Inr
      split: sum.splits if_splits)

lemma convert_wf: "wf_row r \<Longrightarrow> \<exists>n. convertOverlayNode (Some r) = Inr n"
  by (simp add: convertOverlayNode_def wf_row_def NodeIDFromBytes_def Let_def)


lemma sqlRowsToNodes_loop_Inr:
  "sqlRowsToNodes_loop rs acc = Inr ns \<Longrightarrow>
     \<exists>ms. ns = acc @ ms \<and> list_all2 (\<lambda>r n. convertOverlayNode (Some (Scan r)) = Inr n) rs ms"
proof (induction rs arbitrary: acc)
  case Nil
  then show ?case by simp
next
  case (Cons r rs)
  from Cons.prems obtain node where c: "convertOverlayNode (Some (Scan r)) = Inr node"
    and l: "sqlRowsToNodes_loop rs (acc @ [node]) = Inr ns"
    by (auto split: sum.splits)
  from Cons.IH [OF l] obtain ms where "ns = (acc @ [node]) @ ms"
    and "list_all2 (\<lambda>r n. convertOverlayNode (Some (Scan r)) = Inr n) rs ms" by blast
  with c have "ns = acc @ (node # ms) \<and>
      list_all2 (\<lambda>r n. convertOverlayNode (Some (Scan r)) = Inr n) (r # rs) (node # ms)"
    by simp
  then show ?case by blast
qed

lemma sqlRowsToNodes_Inr:
  "sqlRowsToNodes rs = Inr ns \<Longrightarrow>
     list_all2 (\<lambda>r n. convertOverlayNode (Some (Scan r)) = Inr n) rs ns"
  using sqlRowsToNodes_loop_Inr [of rs "[]" ns] by (simp add: sqlRowsToNodes_def)



lemma fold_GetAll_aux:
  "length xs \<le> n \<Longrightarrow>
   fold (\<lambda>(i, x) infos. case f x of Inl err \<Rightarrow> infos | Inr info \<Rightarrow> infos[i := Some info])
     (enumerate 0 xs) (replicate n None)
   = map (\<lambda>x. case f x of Inl err \<Rightarrow> None | Inr info \<Rightarrow> Some info) xs
       @ replicate (n - length xs) None"
proof (induction xs rule: rev_induct)
  case Nil
  then show ?case by simp
next
  case (snoc x xs)
  from snoc.prems obtain k where k: "n - length xs = Suc k" "n - Suc (length xs) = k"
    by (cases "n - length xs") auto
  from snoc show ?case
    by (cases "f x") (simp_all add: enumerate_append_eq k list_update_append)
qed

text \<open>
  Claim C8. For every id list, \<^verbatim>\<open>GetAll\<close> returns no error and a list of the same length
  that holds, at each position, the record of the id at that position if its lookup
  succeeded and a hole if that lookup failed; a failing lookup changes no other position.
\<close>

theorem GetAll_positional:
  "snd (GetAll cache ids) = None
   \<and> length (fst (GetAll cache ids)) = length ids
   \<and> fst (GetAll cache ids) =
       map (\<lambda>x. case Get cache x of Inl err \<Rightarrow> None | Inr info \<Rightarrow> Some info) ids"
  by (simp add: GetAll_def fold_GetAll_aux)

text \<open>
  Claim C7. \<^verbatim>\<open>Get\<close> fails with the empty-node error on the zero identity, and with the
  node-not-found error on a non-zero identity for which the store, answering the lookup,
  has no row; an error result carries no record.
\<close>

theorem Get_errors:
  assumes "IsZero z"
    and "\<not> IsZero i"
    and "fault cache (Get_call (Bytes i)) = None"
    and "Bytes i \<notin> set (map NodeId (rows cache))"
  shows "Get cache z = Inl ErrEmptyNode \<and> Get cache i = Inl ErrNodeNotFound"
proof -
  from assms(4) have "find (\<lambda>r. NodeId r = Bytes i) (rows cache) = None"
    by (force simp: find_None_iff)
  with assms(1-3) show ?thesis
    by (simp add: Get_def Get_OverlayCacheNode_By_NodeId_def)
qed

theorem Get_errors_witness:
  "Get (example_db [example_row 2 0]) zeroID = Inl ErrEmptyNode
   \<and> Get (example_db [example_row 2 0]) (mkID 1) = Inl ErrNodeNotFound"
  using Get_errors [of zeroID "mkID 1" "example_db [example_row 2 0]"]
  by (simp add: IsZero_zeroID IsZero_mkID example_db_def example_row_def no_fault_def
      Bytes_inject mkID_inject)

section \<open>The selection queries\<close>

lemma notin_args: "take (length (sliceOfCopies v (length xs))) (map f xs) = map f xs"
  by (simp add: sliceOfCopies_replicate)

lemma reputable_where_eq:
  "s_AuditCount rep < NewNodeAuditThreshold req \<Longrightarrow>
   reputable_where (map Bytes (o_ExcludedNodes opts)) (NewNodeAuditThreshold req)
      (s_AuditSuccessRatio rep) (s_UptimeCount rep) (s_UptimeRatio rep)
      (r_FreeBandwidth restr) (r_FreeDisk restr) 2
   = proven_predicate req opts restr rep"
  "\<not> s_AuditCount rep < NewNodeAuditThreshold req \<Longrightarrow>
   reputable_where (map Bytes (o_ExcludedNodes opts)) (s_AuditCount rep)
      (s_AuditSuccessRatio rep) (s_UptimeCount rep) (s_UptimeRatio rep)
      (r_FreeBandwidth restr) (r_FreeDisk restr) 2
   = proven_predicate req opts restr rep"
  by (rule ext, auto simp: reputable_where_def proven_predicate_def max_def)+

lemma new_where_eq:
  "new_where (map Bytes (o_ExcludedNodes opts)) (NewNodeAuditThreshold req)
      (r_FreeBandwidth restr) (r_FreeDisk restr) 2
   = new_predicate req opts restr"
  by (rule ext) (auto simp: new_where_def new_predicate_def)

lemma findReputableNodesQuery_eq:
  "MinReputation req = Some rep \<Longrightarrow>
   findReputableNodesQuery cache (getReputableReq req opts restr amt)
     = Return (case fault cache Query_reputable of
                 Some e \<Rightarrow> Inl e
               | None \<Rightarrow> Inr (sql_LIMIT amt (filter (proven_predicate req opts restr rep) (rows cache))))"
  by (simp add: findReputableNodesQuery_def getReputableReq_def db_Query_def notin_args
      reputable_where_eq Let_def split: option.splits)

lemma findNewNodesQuery_eq:
  "findNewNodesQuery cache (getNewReq req opts restr amt)
     = (case fault cache Query_new of
          Some e \<Rightarrow> Inl e
        | None \<Rightarrow> Inr (sql_LIMIT amt (filter (new_predicate req opts restr) (rows cache))))"
  by (simp add: findNewNodesQuery_def getNewReq_def db_Query_def notin_args
      new_where_eq Let_def split: option.splits)

lemma getReputableNodes_eq:
  "MinReputation req = Some rep \<Longrightarrow>
   getReputableNodes cache (getReputableReq req opts restr amt)
     = Return (case fault cache Query_reputable of
                 Some e \<Rightarrow> Inl e
               | None \<Rightarrow> sqlRowsToNodes
                   (sql_LIMIT amt (filter (proven_predicate req opts restr rep) (rows cache))))"
  by (simp add: getReputableNodes_def findReputableNodesQuery_eq split: option.splits)

lemma getReputableNodes_Panic:
  "MinReputation req = None \<Longrightarrow>
   getReputableNodes cache (getReputableReq req opts restr amt) = Panic"
  by (simp add: getReputableNodes_def findReputableNodesQuery_def getReputableReq_def)

lemma getNewNodes_eq:
  "getNewNodes cache (getNewReq req opts restr amt)
     = (case fault cache Query_new of
          Some e \<Rightarrow> Inl e
        | None \<Rightarrow> sqlRowsToNodes
            (sql_LIMIT amt (filter (new_predicate req opts restr) (rows cache))))"
  by (simp add: getNewNodes_def findNewNodesQuery_eq split: option.splits)

lemma FilterNodes_unfold:
  assumes "Opts req = Some opts" and "o_Restrictions opts = Some restr"
  shows "FilterNodes cache req =
     (case getReputableNodes cache (getReputableReq req opts restr (provenTarget req)) of
        Panic \<Rightarrow> Panic
      | Return (Inl err) \<Rightarrow> Return ([], Some err)
      | Return (Inr proven) \<Rightarrow>
          (case getNewNodes cache (getNewReq req opts restr (newNodeQuota req)) of
             Inl err \<Rightarrow> Return ([], Some err)
           | Inr new \<Rightarrow>
               if int (length proven) < provenTarget req
               then Return (proven @ new,
                      Some (ResourceExhausted (provenTarget req) (int (length proven))))
               else Return (proven @ new, None)))"
  using assms
  by (simp add: FilterNodes_def newNodeQuota_def newNodeProduct_def Let_def
      split: outcome.splits sum.splits)

lemma length_sql_LIMIT: "0 \<le> n \<Longrightarrow> int (length (sql_LIMIT n xs)) \<le> n"
  by (simp add: sql_LIMIT_def)

lemma set_sql_LIMIT: "set (sql_LIMIT n xs) \<subseteq> set xs"
  by (auto simp: sql_LIMIT_def dest: in_set_takeD)

lemma sql_LIMIT_all: "int (length xs) < n \<Longrightarrow> sql_LIMIT n xs = xs"
  by (simp add: sql_LIMIT_def)

lemma distinct_sql_LIMIT: "distinct (map f xs) \<Longrightarrow> distinct (map f (sql_LIMIT n xs))"
  by (simp add: sql_LIMIT_def distinct_take flip: take_map)

lemma list_all2_in_set2:
  "list_all2 P xs ys \<Longrightarrow> y \<in> set ys \<Longrightarrow> \<exists>x\<in>set xs. P x y"
  by (induction rule: list_all2_induct) auto

lemma scanned_ids:
  "list_all2 scanned rs ns \<Longrightarrow> map Bytes (map n_Id ns) = map NodeId rs"
  by (induction rule: list_all2_induct) (auto dest: convert_Scan_Inr(1))


lemma proven_tier_rows:
  assumes "MinReputation req = Some rep"
    and "getReputableNodes cache (getReputableReq req opts restr amt) = Return (Inr proven)"
  shows "list_all2 scanned
           (sql_LIMIT amt (filter (proven_predicate req opts restr rep) (rows cache))) proven"
  using assms
  by (auto simp: getReputableNodes_eq split: option.splits intro: sqlRowsToNodes_Inr)

lemma new_tier_rows:
  assumes "getNewNodes cache (getNewReq req opts restr amt) = Inr new"
  shows "list_all2 scanned
           (sql_LIMIT amt (filter (new_predicate req opts restr) (rows cache))) new"
  using assms
  by (auto simp: getNewNodes_eq split: option.splits intro: sqlRowsToNodes_Inr)

lemma Bytes_notin: "Bytes i \<notin> set (map Bytes xs) \<Longrightarrow> i \<notin> set xs"
  by auto

lemma proven_node_meets:
  assumes "scanned r n" and "proven_predicate req opts restr rep r"
  shows "node_meets req opts restr rep n"
proof -
  note c = convert_Scan_Inr [OF assms(1)]
  from assms(2) have "Bytes (n_Id n) \<notin> set (map Bytes (o_ExcludedNodes opts))"
    by (simp add: proven_predicate_def c(1))
  then have "n_Id n \<notin> set (o_ExcludedNodes opts)" by (rule Bytes_notin)
  moreover from assms(2) have "r_FreeBandwidth restr \<le> FreeBandwidth r"
    "r_FreeDisk restr \<le> FreeDisk r"
    by (simp_all add: proven_predicate_def)
  ultimately show ?thesis
    using c(2,4,5) assms(2) by (auto simp: node_meets_def proven_predicate_def)
qed

lemma tiers_disjoint:
  assumes d: "distinct (map NodeId rs)"
    and p: "p \<in> set rs" "proven_predicate req opts restr rep p"
    and n: "n \<in> set rs" "new_predicate req opts restr n"
  shows "NodeId p \<noteq> NodeId n"
proof
  assume "NodeId p = NodeId n"
  with d p(1) n(1) have "p = n" by (meson distinct_map inj_onD)
  with p(2) n(2) show False by (simp add: proven_predicate_def new_predicate_def)
qed

lemma tier_rows_distinct:
  assumes "distinct (map NodeId rs)"
  shows "distinct (map NodeId (sql_LIMIT a (filter (proven_predicate req opts restr rep) rs)
                               @ sql_LIMIT b (filter (new_predicate req opts restr) rs)))"
proof -
  have dp: "distinct (map NodeId (sql_LIMIT a (filter (proven_predicate req opts restr rep) rs)))"
    using assms by (simp add: distinct_sql_LIMIT distinct_map_filter)
  have dn: "distinct (map NodeId (sql_LIMIT b (filter (new_predicate req opts restr) rs)))"
    using assms by (simp add: distinct_sql_LIMIT distinct_map_filter)
  have "NodeId p \<noteq> NodeId n"
    if "p \<in> set (sql_LIMIT a (filter (proven_predicate req opts restr rep) rs))"
      and "n \<in> set (sql_LIMIT b (filter (new_predicate req opts restr) rs))" for p n
  proof -
    from that set_sql_LIMIT have "p \<in> set rs" "proven_predicate req opts restr rep p"
      "n \<in> set rs" "new_predicate req opts restr n" by fastforce+
    then show ?thesis using tiers_disjoint [OF assms] by blast
  qed
  then have "set (map NodeId (sql_LIMIT a (filter (proven_predicate req opts restr rep) rs)))
      \<inter> set (map NodeId (sql_LIMIT b (filter (new_predicate req opts restr) rs))) = {}"
    by auto
  with dp dn show ?thesis by simp
qed

lemma new_quota_floor:
  "newNodeProduct req = Finite x \<Longrightarrow> 0 \<le> x \<Longrightarrow> \<lfloor>x\<rfloor> < 2 ^ 63 \<Longrightarrow> newNodeQuota req = \<lfloor>x\<rfloor>"
  by (simp add: newNodeQuota_def int64_of_float64_def)

lemma length_sql_LIMIT_le: "length (sql_LIMIT n xs) \<le> length xs"
  by (simp add: sql_LIMIT_def)

subsection \<open>Evaluation on the example store\<close>

lemma scanned_example: "scanned (example_row b c) (example_node b c)"
  by (simp add: convertOverlayNode_def Scan_def example_row_def example_node_def
      NodeIDFromBytes_Bytes)

lemmas example_simps =
  example_req_def example_opts_def example_restr_def example_db_def zero_NodeStats_def
  provenTarget_def GetAmount_def no_fault_def

lemmas tier_simps =
  getReputableNodes_eq getNewNodes_eq proven_predicate_def new_predicate_def sql_LIMIT_def
  sqlRowsToNodes_def scanned_example Bytes_inject mkID_inject

lemma example_row_sel:
  "NodeId (example_row b c) = Bytes (mkID b)" "NodeType (example_row b c) = 2"
  "AuditCount (example_row b c) = c" "AuditSuccessRatio (example_row b c) = 1"
  "UptimeCount (example_row b c) = c" "AuditUptimeRatio (example_row b c) = 1"
  "FreeBandwidth (example_row b c) = 100" "FreeDisk (example_row b c) = 100"
  by (simp_all add: example_row_def)

lemma floor_ceiling_neg_one: "\<lfloor>- 1 :: rat\<rfloor> = - 1" "\<lceil>- 1 :: rat\<rceil> = - 1"
  using floor_of_int [of "- 1", where ?'a = rat] ceiling_of_int [of "- 1", where ?'a = rat]
  by simp_all

lemma floor_ceiling_neg_half: "\<lfloor>- (1 / 2) :: rat\<rfloor> = - 1" "\<lceil>- (1 / 2) :: rat\<rceil> = 0"
proof -
  show "\<lfloor>- (1 / 2) :: rat\<rfloor> = - 1" by (rule floor_unique) simp_all
  show "\<lceil>- (1 / 2) :: rat\<rceil> = 0" by (rule ceiling_unique) simp_all
qed

lemma example_product:
  "newNodeProduct (example_req m a p e)
     = float64_mul (float64_of_int64 (if m \<le> 0 then a else m)) (Finite p)"
  by (simp add: newNodeProduct_def example_simps)

lemma ex1_rep:
  "getReputableNodes (example_db [example_row 1 9, example_row 2 9, example_row 3 0])
     (getReputableReq (example_req 3 0 (1/2) []) (example_opts 0 []) example_restr 3)
   = Return (Inr [example_node 1 9, example_node 2 9])"
  by (simp add: example_simps tier_simps example_row_sel)

lemma ex1_new:
  "getNewNodes (example_db [example_row 1 9, example_row 2 9, example_row 3 0])
     (getNewReq (example_req 3 0 (1/2) []) (example_opts 0 []) example_restr 1)
   = Inr [example_node 3 0]"
  by (simp add: example_simps tier_simps example_row_sel)

lemma ex1_quota: "newNodeQuota (example_req 3 0 (1/2) e) = 1"
  unfolding newNodeQuota_def example_product by code_simp

lemma ex2_rep:
  "getReputableNodes (example_db [example_row 1 9])
     (getReputableReq (example_req 0 (- 1) 0 []) (example_opts (- 1) []) example_restr (- 1))
   = Return (Inr [example_node 1 9])"
  by (simp add: example_simps tier_simps example_row_sel)

lemma ex3_rep:
  "getReputableNodes (example_db [example_row 1 9, example_row 2 0, example_row 3 0])
     (getReputableReq (example_req 1 0 (- 1) []) (example_opts 0 []) example_restr 1)
   = Return (Inr [example_node 1 9])"
  by (simp add: example_simps tier_simps example_row_sel)

lemma ex3_new:
  "getNewNodes (example_db [example_row 1 9, example_row 2 0, example_row 3 0])
     (getNewReq (example_req 1 0 (- 1) []) (example_opts 0 []) example_restr (- 1))
   = Inr [example_node 2 0, example_node 3 0]"
  by (simp add: example_simps tier_simps example_row_sel)

lemma ex4_rep:
  "getReputableNodes (example_db [example_row 1 9, example_row 2 9, example_row 3 0, example_row 4 0])
     (getReputableReq (example_req 2 0 (1/2) [mkID 2]) (example_opts 0 [mkID 2]) example_restr 2)
   = Return (Inr [example_node 1 9])"
  by (simp add: example_simps tier_simps example_row_sel)

lemma ex4_new:
  "getNewNodes (example_db [example_row 1 9, example_row 2 9, example_row 3 0, example_row 4 0])
     (getNewReq (example_req 2 0 (1/2) [mkID 2]) (example_opts 0 [mkID 2]) example_restr 1)
   = Inr [example_node 3 0]"
  by (simp add: example_simps tier_simps example_row_sel)

lemma ex4_quota: "newNodeQuota (example_req 2 0 (1/2) e) = 1"
  unfolding newNodeQuota_def example_product by code_simp

lemma ex4_product: "newNodeProduct (example_req 2 0 (1/2) e) = Finite 1"
  unfolding example_product by code_simp

lemma ex2_quota: "newNodeQuota (example_req 0 (- 1) 0 e) = 0"
  unfolding newNodeQuota_def example_product by code_simp

lemma ex3_quota: "newNodeQuota (example_req 1 0 (- 1) e) = - 1"
  unfolding newNodeQuota_def example_product by code_simp

lemma ex3_product: "newNodeProduct (example_req 1 0 (- 1) e) = Finite (- 1)"
  unfolding example_product by code_simp

lemma ex5_quota: "newNodeQuota (example_req 1 0 (- (1/2)) e) = 0"
  unfolding newNodeQuota_def example_product by code_simp

lemma ex5_product: "newNodeProduct (example_req 1 0 (- (1/2)) e) = Finite (- (1/2))"
  unfolding example_product by code_simp

lemma ex6_quota: "newNodeQuota (example_req 1 0 0 e) = 0"
  unfolding newNodeQuota_def example_product by code_simp

lemma ex7_product: "newNodeProduct (example_req 3 0 third64 e) = Finite 1"
  unfolding example_product third64_def by code_simp

lemma ex7_quota: "newNodeQuota (example_req 3 0 third64 e) = 1"
  unfolding newNodeQuota_def ex7_product by code_simp

lemma third64_rounded: "round64 (1 / 3) = Finite third64"
  unfolding third64_def by code_simp

lemma ex7_exact_floor: "\<lfloor>3 * third64\<rfloor> = 0"
  unfolding third64_def by (rule floor_unique) simp_all

lemma ex7_rep:
  "getReputableNodes (example_db [example_row 1 9, example_row 2 0, example_row 3 0])
     (getReputableReq (example_req 3 0 third64 []) (example_opts 0 []) example_restr 3)
   = Return (Inr [example_node 1 9])"
  by (simp add: example_simps tier_simps example_row_sel)

lemma ex7_new:
  "getNewNodes (example_db [example_row 1 9, example_row 2 0, example_row 3 0])
     (getNewReq (example_req 3 0 third64 []) (example_opts 0 []) example_restr 1)
   = Inr [example_node 2 0]"
  by (simp add: example_simps tier_simps example_row_sel)

lemma ex5_rep:
  "getReputableNodes (example_db [example_row 1 9, example_row 2 0, example_row 3 0])
     (getReputableReq (example_req 1 0 (- (1/2)) []) (example_opts 0 []) example_restr 1)
   = Return (Inr [example_node 1 9])"
  by (simp add: example_simps tier_simps example_row_sel)

lemma ex5_new:
  "getNewNodes (example_db [example_row 1 9, example_row 2 0, example_row 3 0])
     (getNewReq (example_req 1 0 (- (1/2)) []) (example_opts 0 []) example_restr 0)
   = Inr []"
  by (simp add: example_simps tier_simps example_row_sel)

section \<open>Properties of selection\<close>

text \<open>
  Claim C3. Where the store holds fewer rows satisfying the proven predicate than the proven target
  and both queries return, \<^verbatim>\<open>FilterNodes\<close> returns the proven nodes found (exactly the
  qualifying rows) followed by the new nodes, together with the resource-exhausted error
  that carries the requested and the found count.
\<close>

theorem FilterNodes_shortfall:
  assumes "Opts req = Some opts"
    and "o_Restrictions opts = Some restr"
    and "MinReputation req = Some rep"
    and "getReputableNodes cache (getReputableReq req opts restr (provenTarget req))
           = Return (Inr proven)"
    and "getNewNodes cache (getNewReq req opts restr (newNodeQuota req)) = Inr new"
    and "int (length (filter (proven_predicate req opts restr rep) (rows cache)))
           < provenTarget req"
  shows "FilterNodes cache req =
           Return (proven @ new,
             Some (ResourceExhausted (provenTarget req) (int (length proven))))
         \<and> list_all2 scanned (filter (proven_predicate req opts restr rep) (rows cache)) proven"
proof -
  have all2: "list_all2 scanned (filter (proven_predicate req opts restr rep) (rows cache)) proven"
    using proven_tier_rows [OF assms(3,4)] sql_LIMIT_all [OF assms(6)] by simp
  then have "int (length proven) < provenTarget req"
    using assms(6) by (simp add: list_all2_lengthD [symmetric])
  then show ?thesis
    using all2 assms(4,5) by (simp add: FilterNodes_unfold [OF assms(1,2)])
qed

theorem FilterNodes_shortfall_witness:
  "FilterNodes (example_db [example_row 1 9, example_row 2 9, example_row 3 0])
     (example_req 3 0 (1/2) [])
   = Return ([example_node 1 9, example_node 2 9, example_node 3 0],
       Some (ResourceExhausted 3 2))"
  using FilterNodes_shortfall [of "example_req 3 0 (1/2) []" "example_opts 0 []" example_restr
      zero_NodeStats "example_db [example_row 1 9, example_row 2 9, example_row 3 0]"
      "[example_node 1 9, example_node 2 9]" "[example_node 3 0]"]
    ex1_rep ex1_new
  by (simp add: ex1_quota) (simp add: example_simps proven_predicate_def example_row_sel)

text \<open>
  Claim C4, amended. The node list returned by \<^verbatim>\<open>FilterNodes\<close> holds no identity of the
  exclusion set and no identity twice (the table holding one row for each identity), and
  where the product of proven target and new-node percentage, as \<^verbatim>\<open>FilterNodes\<close>
  computes it in \<^verbatim>\<open>float64\<close>, is a finite number that is not negative, the new tier has
  at most the floor of that computed product (the table holding fewer than \<open>2 ^ 63\<close>
  rows).
\<close>

theorem FilterNodes_result_invariant:
  assumes "Opts req = Some opts"
    and "o_Restrictions opts = Some restr"
    and "MinReputation req = Some rep"
    and "distinct (map NodeId (rows cache))"
    and "int (length (rows cache)) < 2 ^ 63"
    and "getReputableNodes cache (getReputableReq req opts restr (provenTarget req))
           = Return (Inr proven)"
    and "getNewNodes cache (getNewReq req opts restr (newNodeQuota req)) = Inr new"
  shows "(\<exists>err. FilterNodes cache req = Return (proven @ new, err))
         \<and> (\<forall>n\<in>set (proven @ new). n_Id n \<notin> set (o_ExcludedNodes opts))
         \<and> distinct (map n_Id (proven @ new))
         \<and> (newNodeProduct req = Finite x \<and> 0 \<le> x \<longrightarrow> int (length new) \<le> \<lfloor>x\<rfloor>)"
proof -
  let ?ps = "sql_LIMIT (provenTarget req) (filter (proven_predicate req opts restr rep) (rows cache))"
  let ?ns = "sql_LIMIT (newNodeQuota req) (filter (new_predicate req opts restr) (rows cache))"
  have p2: "list_all2 scanned ?ps proven" using proven_tier_rows [OF assms(3,6)] .
  have n2: "list_all2 scanned ?ns new" using new_tier_rows [OF assms(7)] .
  have ret: "\<exists>err. FilterNodes cache req = Return (proven @ new, err)"
    using assms(6,7) by (simp add: FilterNodes_unfold [OF assms(1,2)])
  have excl: "n_Id n \<notin> set (o_ExcludedNodes opts)" if "n \<in> set (proven @ new)" for n
  proof -
    from that consider "n \<in> set proven" | "n \<in> set new" by auto
    then obtain r where r: "scanned r n" "NodeId r \<notin> set (map Bytes (o_ExcludedNodes opts))"
    proof cases
      case 1
      from list_all2_in_set2 [OF p2 1] obtain r where "r \<in> set ?ps" "scanned r n" by blast
      moreover from this(1) set_sql_LIMIT have "proven_predicate req opts restr rep r"
        by fastforce
      ultimately show ?thesis using that by (simp add: proven_predicate_def)
    next
      case 2
      from list_all2_in_set2 [OF n2 2] obtain r where "r \<in> set ?ns" "scanned r n" by blast
      moreover from this(1) set_sql_LIMIT have "new_predicate req opts restr r"
        by fastforce
      ultimately show ?thesis using that by (simp add: new_predicate_def)
    qed
    from convert_Scan_Inr(1) [OF r(1)] r(2) show ?thesis
      using Bytes_notin by metis
  qed
  have "map Bytes (map n_Id (proven @ new)) = map NodeId (?ps @ ?ns)"
    using scanned_ids [OF p2] scanned_ids [OF n2] by simp
  then have "distinct (map Bytes (map n_Id (proven @ new)))"
    using tier_rows_distinct [OF assms(4)] by metis
  then have dist: "distinct (map n_Id (proven @ new))"
    by (simp only: distinct_map)
  have quota: "int (length new) \<le> \<lfloor>x\<rfloor>" if h: "newNodeProduct req = Finite x" "0 \<le> x"
  proof (cases "\<lfloor>x\<rfloor> < 2 ^ 63")
    case True
    from h(2) have "0 \<le> \<lfloor>x\<rfloor>" by simp
    then have "0 \<le> newNodeQuota req" by (simp add: new_quota_floor [OF h True])
    from length_sql_LIMIT [OF this, of "filter (new_predicate req opts restr) (rows cache)"]
    have "int (length new) \<le> newNodeQuota req"
      by (simp add: list_all2_lengthD [OF n2])
    then show ?thesis by (simp add: new_quota_floor [OF h True])
  next
    case False
    have "length new \<le> length (filter (new_predicate req opts restr) (rows cache))"
      using length_sql_LIMIT_le [of "newNodeQuota req"
          "filter (new_predicate req opts restr) (rows cache)"]
      by (simp add: list_all2_lengthD [OF n2])
    also have "\<dots> \<le> length (rows cache)" by simp
    finally have "int (length new) < 2 ^ 63" using assms(5) by simp
    moreover from False have "(2 :: int) ^ 63 \<le> \<lfloor>x\<rfloor>" by linarith
    ultimately show ?thesis by linarith
  qed
  from ret excl dist quota show ?thesis by blast
qed

theorem FilterNodes_result_invariant_witness:
  "FilterNodes (example_db [example_row 1 9, example_row 2 9, example_row 3 0, example_row 4 0])
     (example_req 2 0 (1/2) [mkID 2])
   = Return ([example_node 1 9, example_node 3 0], Some (ResourceExhausted 2 1))
   \<and> n_Id (example_node 1 9) \<noteq> mkID 2 \<and> n_Id (example_node 3 0) \<noteq> mkID 2
   \<and> distinct (map n_Id [example_node 1 9, example_node 3 0])
   \<and> newNodeProduct (example_req 2 0 (1/2) [mkID 2]) = Finite 1
   \<and> int (length [example_node 3 0]) \<le> \<lfloor>1 :: rat\<rfloor>"
proof -
  let ?db = "example_db [example_row 1 9, example_row 2 9, example_row 3 0, example_row 4 0]"
  let ?req = "example_req 2 0 (1/2) [mkID 2]"
  have t: "provenTarget ?req = 2"
    by (simp add: example_simps)
  have d: "distinct (map NodeId (rows ?db))" "int (length (rows ?db)) < 2 ^ 63"
    by (simp_all add: example_db_def example_row_sel Bytes_inject mkID_inject)
  have f: "FilterNodes ?db ?req = Return ([example_node 1 9, example_node 3 0],
      Some (ResourceExhausted 2 1))"
    using FilterNodes_unfold [of ?req "example_opts 0 [mkID 2]" example_restr ?db]
      ex4_rep ex4_new
    by (simp add: t ex4_quota) (simp add: example_simps)
  from FilterNodes_result_invariant [of ?req "example_opts 0 [mkID 2]" example_restr
      zero_NodeStats ?db "[example_node 1 9]" "[example_node 3 0]" 1] d ex4_rep ex4_new
  have "(\<forall>n\<in>set ([example_node 1 9] @ [example_node 3 0]). n_Id n \<notin> set [mkID 2])
      \<and> distinct (map n_Id ([example_node 1 9] @ [example_node 3 0]))
      \<and> int (length [example_node 3 0]) \<le> \<lfloor>1 :: rat\<rfloor>"
    by (simp add: t ex4_quota ex4_product) (simp add: example_simps)
  with f ex4_product show ?thesis by simp
qed

text \<open>
  Claim C4 as stated fails for a negative product. With proven target 1 and percentage
  \<open>- 1\<close> the quota is \<open>- 1\<close>, the LIMIT of the new-node statement puts no bound, and both
  eligible new nodes are returned, more than the floor \<open>- 1\<close>. With percentage \<open>- 1/2\<close> the
  conversion discards the fraction, the quota is 0 and no new node is returned, which
  still exceeds the floor \<open>- 1\<close>. It also fails when the product is read as the exact
  one: with proven target 3 and the percentage 0.3333333333333333 the \<^verbatim>\<open>float64\<close>
  product rounds to 1 and one new node is returned, while the floor of the exact product
  is 0.
\<close>

theorem new_quota_counterexample:
  "FilterNodes (example_db [example_row 1 9, example_row 2 0, example_row 3 0])
     (example_req 1 0 (- 1) [])
   = Return ([example_node 1 9] @ [example_node 2 0, example_node 3 0], None)
   \<and> newNodeProduct (example_req 1 0 (- 1) []) = Finite (- 1)
   \<and> \<not> int (length [example_node 2 0, example_node 3 0]) \<le> \<lfloor>- 1 :: rat\<rfloor>
   \<and> FilterNodes (example_db [example_row 1 9, example_row 2 0, example_row 3 0])
       (example_req 1 0 (- (1/2)) [])
     = Return ([example_node 1 9] @ [], None)
   \<and> newNodeProduct (example_req 1 0 (- (1/2)) []) = Finite (- (1/2))
   \<and> \<not> int (length ([] :: pb_Node list)) \<le> \<lfloor>- (1/2) :: rat\<rfloor>
   \<and> FilterNodes (example_db [example_row 1 9, example_row 2 0, example_row 3 0])
       (example_req 3 0 third64 [])
     = Return ([example_node 1 9] @ [example_node 2 0], Some (ResourceExhausted 3 1))
   \<and> NewNodePercentage (example_req 3 0 third64 []) = round64 (1 / 3)
   \<and> \<not> int (length [example_node 2 0]) \<le> \<lfloor>3 * third64\<rfloor>"
proof -
  let ?db = "example_db [example_row 1 9, example_row 2 0, example_row 3 0]"
  have t: "provenTarget (example_req 1 0 p []) = 1" "provenTarget (example_req 3 0 p []) = 3"
    for p by (simp_all add: example_simps)
  have a: "FilterNodes ?db (example_req 1 0 (- 1) [])
      = Return ([example_node 1 9] @ [example_node 2 0, example_node 3 0], None)"
    using FilterNodes_unfold [of "example_req 1 0 (- 1) []" "example_opts 0 []" example_restr ?db]
      ex3_rep ex3_new
    by (simp add: t ex3_quota) (simp add: example_simps)
  have b: "FilterNodes ?db (example_req 1 0 (- (1/2)) [])
      = Return ([example_node 1 9] @ [], None)"
    using FilterNodes_unfold [of "example_req 1 0 (- (1/2)) []" "example_opts 0 []" example_restr
        ?db] ex5_rep ex5_new
    by (simp add: t ex5_quota) (simp add: example_simps)
  have c: "FilterNodes ?db (example_req 3 0 third64 [])
      = Return ([example_node 1 9] @ [example_node 2 0], Some (ResourceExhausted 3 1))"
    using FilterNodes_unfold [of "example_req 3 0 third64 []" "example_opts 0 []" example_restr
        ?db] ex7_rep ex7_new
    by (simp add: t ex7_quota) (simp add: example_simps)
  have r: "NewNodePercentage (example_req 3 0 third64 []) = round64 (1 / 3)"
    by (simp add: example_req_def third64_rounded)
  from a b c r show ?thesis
    by (simp add: ex3_product ex5_product ex7_exact_floor floor_ceiling_neg_one
        floor_ceiling_neg_half)
qed

text \<open>
  Claim C5, amended. Every node of the proven tier is a storage node, is not excluded,
  carries audit count, audit success ratio, uptime count and uptime ratio at or above the
  floors, carries free bandwidth and free disk at or above the requested floors (a node
  is returned without restrictions only where both requested floors are negative), and
  comes from a stored row that satisfies the whole proven predicate; where the proven
  target is not negative the tier has at most that many nodes.
\<close>

theorem proven_tier_sound:
  assumes "Opts req = Some opts"
    and "o_Restrictions opts = Some restr"
    and "MinReputation req = Some rep"
    and "getReputableNodes cache (getReputableReq req opts restr (provenTarget req))
           = Return (Inr proven)"
  shows "(\<forall>n\<in>set proven.
            node_meets req opts restr rep n
            \<and> (\<exists>r\<in>set (rows cache). NodeId r = Bytes (n_Id n)
                  \<and> proven_predicate req opts restr rep r))
         \<and> (0 \<le> provenTarget req \<longrightarrow> int (length proven) \<le> provenTarget req)"
proof -
  let ?rs = "sql_LIMIT (provenTarget req) (filter (proven_predicate req opts restr rep) (rows cache))"
  have all2: "list_all2 scanned ?rs proven"
    using proven_tier_rows [OF assms(3,4)] .
  have "node_meets req opts restr rep n
        \<and> (\<exists>r\<in>set (rows cache). NodeId r = Bytes (n_Id n) \<and> proven_predicate req opts restr rep r)"
    if "n \<in> set proven" for n
  proof -
    from list_all2_in_set2 [OF all2 that] obtain r where r: "r \<in> set ?rs" "scanned r n"
      by blast
    from r(1) set_sql_LIMIT have "r \<in> set (rows cache)" "proven_predicate req opts restr rep r"
      by fastforce+
    with r(2) show ?thesis
      using proven_node_meets convert_Scan_Inr(1) by metis
  qed
  moreover have "int (length proven) \<le> provenTarget req" if "0 \<le> provenTarget req"
    using list_all2_lengthD [OF all2] length_sql_LIMIT [OF that] by metis
  ultimately show ?thesis by blast
qed

theorem proven_tier_sound_witness:
  "node_meets (example_req 3 0 (1/2) []) (example_opts 0 []) example_restr zero_NodeStats
     (example_node 1 9)
   \<and> node_meets (example_req 3 0 (1/2) []) (example_opts 0 []) example_restr zero_NodeStats
       (example_node 2 9)
   \<and> n_Restrictions (example_node 1 9) = Some \<lparr>r_FreeBandwidth = 100, r_FreeDisk = 100\<rparr>
   \<and> int (length [example_node 1 9, example_node 2 9]) \<le> provenTarget (example_req 3 0 (1/2) [])"
  using proven_tier_sound [of "example_req 3 0 (1/2) []" "example_opts 0 []" example_restr
      zero_NodeStats "example_db [example_row 1 9, example_row 2 9, example_row 3 0]"
      "[example_node 1 9, example_node 2 9]"]
    ex1_rep
  by (simp add: example_simps) (simp add: example_node_def)

text \<open>
  Claim C5 as stated fails for a negative proven target: with \<^verbatim>\<open>MinNodes\<close> 0 and amount
  \<open>- 1\<close> the LIMIT of the proven statement puts no bound, and the proven tier holds one
  node, more than the target \<open>- 1\<close>; no error is returned.
\<close>

theorem proven_tier_cap_counterexample:
  "provenTarget (example_req 0 (- 1) 0 []) = - 1
   \<and> getReputableNodes (example_db [example_row 1 9])
        (getReputableReq (example_req 0 (- 1) 0 []) (example_opts (- 1) []) example_restr
           (provenTarget (example_req 0 (- 1) 0 [])))
      = Return (Inr [example_node 1 9])
   \<and> FilterNodes (example_db [example_row 1 9]) (example_req 0 (- 1) 0 [])
      = Return ([example_node 1 9], None)
   \<and> \<not> int (length [example_node 1 9]) \<le> provenTarget (example_req 0 (- 1) 0 [])"
proof -
  have t: "provenTarget (example_req 0 (- 1) 0 []) = - 1"
    by (simp add: example_simps)
  have q: "newNodeQuota (example_req 0 (- 1) 0 []) = 0"
    by (rule ex2_quota)
  have n: "getNewNodes (example_db [example_row 1 9])
     (getNewReq (example_req 0 (- 1) 0 []) (example_opts (- 1) []) example_restr 0) = Inr []"
    by (simp add: example_simps tier_simps example_row_sel)
  have "FilterNodes (example_db [example_row 1 9]) (example_req 0 (- 1) 0 [])
      = Return ([example_node 1 9], None)"
    using FilterNodes_unfold [of "example_req 0 (- 1) 0 []" "example_opts (- 1) []" example_restr
        "example_db [example_row 1 9]"] ex2_rep n
    by (simp add: t q) (simp add: example_simps)
  with t ex2_rep show ?thesis by simp
qed



text \<open>
  Claim C10. Where the proven-node query fails, or it returns nodes and the new-node query fails,
  \<^verbatim>\<open>FilterNodes\<close> returns the nil list together with that error.
\<close>

theorem FilterNodes_query_failure:
  assumes "Opts req = Some opts"
    and "o_Restrictions opts = Some restr"
    and "getReputableNodes cache (getReputableReq req opts restr (provenTarget req))
           = Return (Inl e)
         \<or> (getReputableNodes cache (getReputableReq req opts restr (provenTarget req))
              = Return (Inr proven)
            \<and> getNewNodes cache (getNewReq req opts restr (newNodeQuota req)) = Inl e)"
  shows "FilterNodes cache req = Return ([], Some e)"
  using assms(3) by (auto simp: FilterNodes_unfold [OF assms(1,2)])

theorem FilterNodes_query_failure_witness:
  "getReputableNodes (faulty_db [example_row 1 9] Query_new (StoreError ''io''))
     (getReputableReq (example_req 1 0 0 []) (example_opts 0 []) example_restr 1)
   = Return (Inr [example_node 1 9])
   \<and> FilterNodes (faulty_db [example_row 1 9] Query_new (StoreError ''io'')) (example_req 1 0 0 [])
       = Return ([], Some (StoreError ''io''))"
proof -
  let ?db = "faulty_db [example_row 1 9] Query_new (StoreError ''io'')"
  let ?req = "example_req 1 0 0 []"
  have t: "provenTarget ?req = 1" "newNodeQuota ?req = 0"
    by (simp_all add: ex6_quota) (simp add: example_simps)
  have p: "getReputableNodes ?db (getReputableReq ?req (example_opts 0 []) example_restr 1)
      = Return (Inr [example_node 1 9])"
    by (simp add: faulty_db_def example_simps tier_simps example_row_sel)
  have n: "getNewNodes ?db (getNewReq ?req (example_opts 0 []) example_restr 0)
      = Inl (StoreError ''io'')"
    by (simp add: faulty_db_def example_simps tier_simps)
  from FilterNodes_query_failure [of ?req "example_opts 0 []" example_restr ?db
      "StoreError ''io''" "[example_node 1 9]"] p n
  have "FilterNodes ?db ?req = Return ([], Some (StoreError ''io''))"
    by (simp add: t) (simp add: example_simps)
  with p show ?thesis by simp
qed

text \<open>A non-empty list comes with an error only in the shortfall case.\<close>

lemma FilterNodes_partial_only_shortfall:
  assumes "FilterNodes cache req = Return (nodes, Some err)" and "nodes \<noteq> []"
  shows "\<exists>found. err = ResourceExhausted (provenTarget req) found"
  using assms
  by (auto simp: FilterNodes_def Let_def split: option.splits outcome.splits sum.splits if_splits)

section \<open>Pagination\<close>

lemma convert_each_length: "convert_each rs = Inr ns \<Longrightarrow> length ns = length rs"
  by (induction rs arbitrary: ns) (auto split: sum.splits)

lemma convert_each_wf: "list_all wf_row rs \<Longrightarrow> \<exists>ns. convert_each rs = Inr ns"
proof (induction rs)
  case Nil
  then show ?case by simp
next
  case (Cons r rs)
  then obtain n ns where "convertOverlayNode (Some r) = Inr n" "convert_each rs = Inr ns"
    using convert_wf by fastforce
  then show ?case by simp
qed

lemma cursor_zero_le: "wf_row r \<Longrightarrow> Bytes zeroID \<le> NodeId r"
  using zero_le_bytes [of "NodeId r"] by (simp add: wf_row_def Bytes_zeroID)

lemma filter_cursor_zero:
  "list_all wf_row rs \<Longrightarrow> filter (\<lambda>r. Bytes zeroID \<le> NodeId r) rs = rs"
  by (simp add: list_all_iff cursor_zero_le)

lemma Paginate_eq:
  "Paginate LookupLimit cache off lmt =
     (case Limited_OverlayCacheNode_By_NodeId_GreaterOrEqual cache (Bytes zeroID)
             (effective_limit LookupLimit lmt) off of
        Inl err \<Rightarrow> ([], False, Some err)
      | Inr dbxInfos \<Rightarrow>
          (case convert_each dbxInfos of
             Inl err \<Rightarrow> ([], False, Some err)
           | Inr infos \<Rightarrow>
               (infos, \<not> int (length dbxInfos) < effective_limit LookupLimit lmt, None)))"
  by (auto simp: Paginate_def effective_limit_def Let_def split: sum.splits)

lemma Paginate_page:
  assumes "list_all wf_row (rows cache)" and "fault cache Limited_call = None"
    and "0 \<le> off" and "0 < effective_limit LookupLimit lmt"
  shows "\<exists>page. Paginate LookupLimit cache off lmt
           = (page, \<not> int (length page) < effective_limit LookupLimit lmt, None)
         \<and> length page = min (nat (effective_limit LookupLimit lmt)) (length (rows cache) - nat off)"
proof -
  let ?xs = "sql_LIMIT (effective_limit LookupLimit lmt)
               (sql_OFFSET off (sort_key NodeId (rows cache)))"
  have q: "Limited_OverlayCacheNode_By_NodeId_GreaterOrEqual cache (Bytes zeroID)
             (effective_limit LookupLimit lmt) off = Inr ?xs"
    using assms(1,2)
    by (simp add: Limited_OverlayCacheNode_By_NodeId_GreaterOrEqual_def filter_cursor_zero)
  have len: "length ?xs = min (nat (effective_limit LookupLimit lmt)) (length (rows cache) - nat off)"
    using assms(3,4) by (simp add: sql_LIMIT_def sql_OFFSET_def)
  have "set ?xs \<subseteq> set (rows cache)"
    using assms(3,4) by (auto simp: sql_LIMIT_def sql_OFFSET_def dest!: in_set_takeD in_set_dropD)
  with assms(1) have "list_all wf_row ?xs" by (auto simp: list_all_iff)
  then obtain page where c: "convert_each ?xs = Inr page" using convert_each_wf by blast
  with len have "length page = min (nat (effective_limit LookupLimit lmt)) (length (rows cache) - nat off)"
    by (simp add: convert_each_length)
  moreover from c have "length page = length ?xs" by (rule convert_each_length)
  ultimately show ?thesis by (simp add: Paginate_eq q c)
qed

lemma replicate_snoc_le:
  "(replicate n (0::byte) @ [a] \<le> replicate n 0 @ [b]) = (a \<le> b)"
  by (induction n) auto

lemma Bytes_mkID_le: "(Bytes (mkID a) \<le> Bytes (mkID b)) = (a \<le> b)"
  by (simp add: Bytes_mkID replicate_snoc_le)

lemma convert_example: "convertOverlayNode (Some (example_row b c)) = Inr (example_node b c)"
  by (simp add: convertOverlayNode_def example_row_def example_node_def NodeIDFromBytes_Bytes)

lemma wf_example_row: "wf_row (example_row b c)"
  by (simp add: wf_row_def example_row_sel length_Bytes)

lemma sorted_five:
  "sort_key NodeId five_rows
     = [example_row 1 9, example_row 2 9, example_row 3 9, example_row 4 0, example_row 5 0]"
  by (simp add: five_rows_def example_row_sel Bytes_mkID_le word_le_nat_alt)

lemma Paginate_five:
  "Paginate 1000 (example_db five_rows) 0 2 = ([example_node 1 9, example_node 2 9], True, None)"
  "Paginate 1000 (example_db five_rows) 2 2 = ([example_node 3 9, example_node 4 0], True, None)"
  "Paginate 1000 (example_db five_rows) 4 2 = ([example_node 5 0], False, None)"
proof -
  have w: "list_all wf_row five_rows" by (simp add: five_rows_def wf_example_row)
  show "Paginate 1000 (example_db five_rows) 0 2 = ([example_node 1 9, example_node 2 9], True, None)"
    "Paginate 1000 (example_db five_rows) 2 2 = ([example_node 3 9, example_node 4 0], True, None)"
    "Paginate 1000 (example_db five_rows) 4 2 = ([example_node 5 0], False, None)"
    by (simp_all add: Paginate_eq effective_limit_def
        Limited_OverlayCacheNode_By_NodeId_GreaterOrEqual_def example_db_def no_fault_def
        filter_cursor_zero [OF w] sorted_five sql_LIMIT_def sql_OFFSET_def convert_example)
qed

text \<open>
  Claim C9, amended. On a well-formed store of 5 records whose listing runs, with
  \<open>LookupLimit\<close> at least 2, the calls with limit 2 at offsets 0, 2 and 4 return 2, 2 and 1
  records with flags true, true and false; and for a positive \<open>LookupLimit\<close> the flag of a
  returned page is true exactly when the page holds exactly the clamped limit.
\<close>

theorem Paginate_pages:
  assumes "0 < LookupLimit"
  shows "(2 \<le> LookupLimit \<and> length (rows cache) = 5 \<and> list_all wf_row (rows cache)
            \<and> fault cache Limited_call = None \<longrightarrow>
          (\<exists>p0 p2 p4.
              Paginate LookupLimit cache 0 2 = (p0, True, None) \<and> length p0 = 2
            \<and> Paginate LookupLimit cache 2 2 = (p2, True, None) \<and> length p2 = 2
            \<and> Paginate LookupLimit cache 4 2 = (p4, False, None) \<and> length p4 = 1))
         \<and> (Paginate LookupLimit cache' off lmt = (page, moreAvailable, None) \<longrightarrow>
              moreAvailable = (int (length page) = effective_limit LookupLimit lmt))"
proof (intro conjI impI)
  assume h: "2 \<le> LookupLimit \<and> length (rows cache) = 5 \<and> list_all wf_row (rows cache)
            \<and> fault cache Limited_call = None"
  then have e: "effective_limit LookupLimit 2 = 2" by (simp add: effective_limit_def)
  from h Paginate_page [of cache 0 LookupLimit 2] obtain p0
    where p0: "Paginate LookupLimit cache 0 2 = (p0, \<not> int (length p0) < 2, None)" "length p0 = 2"
    by (auto simp: e)
  from h Paginate_page [of cache 2 LookupLimit 2] obtain p2
    where p2: "Paginate LookupLimit cache 2 2 = (p2, \<not> int (length p2) < 2, None)" "length p2 = 2"
    by (auto simp: e)
  from h Paginate_page [of cache 4 LookupLimit 2] obtain p4
    where p4: "Paginate LookupLimit cache 4 2 = (p4, \<not> int (length p4) < 2, None)" "length p4 = 1"
    by (auto simp: e)
  from p0 p2 p4 show "\<exists>p0 p2 p4.
              Paginate LookupLimit cache 0 2 = (p0, True, None) \<and> length p0 = 2
            \<and> Paginate LookupLimit cache 2 2 = (p2, True, None) \<and> length p2 = 2
            \<and> Paginate LookupLimit cache 4 2 = (p4, False, None) \<and> length p4 = 1"
    by auto
next
  assume r: "Paginate LookupLimit cache' off lmt = (page, moreAvailable, None)"
  have pos: "0 < effective_limit LookupLimit lmt"
    using assms by (simp add: effective_limit_def)
  from r obtain xs where q: "Limited_OverlayCacheNode_By_NodeId_GreaterOrEqual cache' (Bytes zeroID)
             (effective_limit LookupLimit lmt) off = Inr xs"
    and c: "convert_each xs = Inr page"
    and m: "moreAvailable = (\<not> int (length xs) < effective_limit LookupLimit lmt)"
    by (auto simp: Paginate_eq split: sum.splits)
  from q pos have "int (length xs) \<le> effective_limit LookupLimit lmt"
    by (auto simp: Limited_OverlayCacheNode_By_NodeId_GreaterOrEqual_def sql_LIMIT_def
        split: option.splits)
  with m convert_each_length [OF c]
  show "moreAvailable = (int (length page) = effective_limit LookupLimit lmt)" by auto
qed

theorem Paginate_pages_witness:
  "Paginate 1000 (example_db five_rows) 0 2 = ([example_node 1 9, example_node 2 9], True, None)
   \<and> Paginate 1000 (example_db five_rows) 2 2 = ([example_node 3 9, example_node 4 0], True, None)
   \<and> Paginate 1000 (example_db five_rows) 4 2 = ([example_node 5 0], False, None)
   \<and> length (rows (example_db five_rows)) = 5
   \<and> False = (int (length [example_node 5 0]) = effective_limit 1000 2)"
  using Paginate_pages [of 1000 "example_db five_rows" "example_db five_rows" 4 2
      "[example_node 5 0]" False]
    Paginate_five
  by (simp add: example_db_def five_rows_def)

text \<open>
  Claim C9 as stated fails in its general part: a limit outside \<open>1..LookupLimit\<close> is
  replaced by \<open>LookupLimit\<close>, so on an empty store with limit 0 the page holds exactly 0
  records and the flag is false.
\<close>

theorem Paginate_more_counterexample:
  "Paginate 1000 (example_db []) 0 0 = ([], False, None)
   \<and> int (length ([] :: pb_Node list)) = 0"
  by (simp add: Paginate_eq effective_limit_def
      Limited_OverlayCacheNode_By_NodeId_GreaterOrEqual_def example_db_def no_fault_def
      sql_LIMIT_def sql_OFFSET_def)

section \<open>Update followed by Get\<close>

lemma find_append_new:
  "k \<notin> set (map f rs) \<Longrightarrow> f r = k \<Longrightarrow> find (\<lambda>x. f x = k) (rs @ [r]) = Some r"
  by (induction rs) auto

lemma find_absent: "k \<notin> set (map f rs) \<Longrightarrow> find (\<lambda>x. f x = k) rs = None"
  by (induction rs) auto

lemma Update_creates:
  assumes "\<not> IsZero (n_Id info)"
    and "Bytes (n_Id info) \<notin> set (map NodeId (rows cache))"
    and "fault cache = no_fault"
  shows "Update cache (Some info) = Return (None, cache\<lparr>rows := rows cache @ [created_row info]\<rparr>)"
proof -
  have g: "Get_OverlayCacheNode_By_NodeId cache (Bytes (n_Id info)) = Inl ErrNoRows"
    using assms(2,3)
    by (simp add: Get_OverlayCacheNode_By_NodeId_def no_fault_def find_absent)
  have c: "Create_OverlayCacheNode cache (created_row info)
      = Inr (cache\<lparr>rows := rows cache @ [created_row info]\<rparr>)"
    using assms(2,3)
    by (simp add: Create_OverlayCacheNode_def no_fault_def created_row_def Let_def)
  have o: "db_Open cache = Inr cache"
    using assms(3) by (simp add: db_Open_def no_fault_def)
  have m: "tx_Commit cache (cache\<lparr>rows := rows cache @ [created_row info]\<rparr>)
      = (None, cache\<lparr>rows := rows cache @ [created_row info]\<rparr>)"
    using assms(3) by (simp add: tx_Commit_def no_fault_def)
  from c have c': "Create_OverlayCacheNode cache
       \<lparr>NodeId = Bytes (n_Id info), NodeType = n_Type info,
          Address = a_Address (case n_Address info of None \<Rightarrow> zero_NodeAddress | Some a \<Rightarrow> a),
          Protocol = a_Transport (case n_Address info of None \<Rightarrow> zero_NodeAddress | Some a \<Rightarrow> a),
          OperatorEmail = m_Email (case n_Metadata info of None \<Rightarrow> zero_NodeMetadata | Some m \<Rightarrow> m),
          OperatorWallet = m_Wallet (case n_Metadata info of None \<Rightarrow> zero_NodeMetadata | Some m \<Rightarrow> m),
          FreeBandwidth = r_FreeBandwidth (case n_Restrictions info of
                            None \<Rightarrow> \<lparr>r_FreeBandwidth = - 1, r_FreeDisk = - 1\<rparr> | Some r \<Rightarrow> r),
          FreeDisk = r_FreeDisk (case n_Restrictions info of
                            None \<Rightarrow> \<lparr>r_FreeBandwidth = - 1, r_FreeDisk = - 1\<rparr> | Some r \<Rightarrow> r),
          Latency90 = s_Latency_90 (case n_Reputation info of None \<Rightarrow> zero_NodeStats | Some s \<Rightarrow> s),
          AuditSuccessRatio = s_AuditSuccessRatio (case n_Reputation info of None \<Rightarrow> zero_NodeStats | Some s \<Rightarrow> s),
          AuditUptimeRatio = s_UptimeRatio (case n_Reputation info of None \<Rightarrow> zero_NodeStats | Some s \<Rightarrow> s),
          AuditCount = s_AuditCount (case n_Reputation info of None \<Rightarrow> zero_NodeStats | Some s \<Rightarrow> s),
          AuditSuccessCount = s_AuditSuccessCount (case n_Reputation info of None \<Rightarrow> zero_NodeStats | Some s \<Rightarrow> s),
          UptimeCount = s_UptimeCount (case n_Reputation info of None \<Rightarrow> zero_NodeStats | Some s \<Rightarrow> s),
          UptimeSuccessCount = s_UptimeSuccessCount (case n_Reputation info of None \<Rightarrow> zero_NodeStats | Some s \<Rightarrow> s)\<rparr>
      = Inr (cache\<lparr>rows := rows cache @ [created_row info]\<rparr>)"
    by (simp add: created_row_def Let_def)
  show ?thesis
    using assms(1) by (simp add: Update_def o g c' m Let_def Error_Wrap_def)
qed

lemma convert_created_row:
  assumes "reproducible info"
  shows "convertOverlayNode (Some (created_row info))
           = Inr (info\<lparr>n_Reputation := Some (reputation_read_back info)\<rparr>)"
  using assms
  by (cases info)
    (auto simp: convertOverlayNode_def created_row_def reproducible_def reputation_read_back_def
      NodeIDFromBytes_Bytes Let_def zero_NodeAddress_def zero_NodeMetadata_def zero_NodeStats_def
      split: option.splits)

lemma created_absent: "created_row (absent_node b) = absent_row b"
  by (simp add: created_row_def absent_node_def absent_row_def zero_NodeAddress_def
      zero_NodeMetadata_def zero_NodeStats_def)

lemma created_full: "created_row (full_node b) = full_row b"
  by (simp add: created_row_def full_node_def full_row_def)

lemma Update_example_fresh:
  "b \<noteq> 0 \<Longrightarrow> n_Id info = mkID b \<Longrightarrow>
   Update (example_db []) (Some info) = Return (None, example_db [created_row info])"
  using Update_creates [of info "example_db []"]
  by (simp add: IsZero_mkID example_db_def)

text \<open>
  Claim C1, amended. For a node-info value with non-zero identity and no sentinel value
  in a present sub-group, \<^verbatim>\<open>Update\<close> on a store without faults and without a row for the
  identity, followed by \<^verbatim>\<open>Get\<close>, returns the input with its reputation read back: the
  input's own where it has one, so that the record equals the input, and the zero
  statistics of the node otherwise. Absent address, metadata and restrictions come back
  absent.
\<close>

theorem upsert_get_roundtrip:
  assumes "\<not> IsZero (n_Id info)"
    and "Bytes (n_Id info) \<notin> set (map NodeId (rows cache))"
    and "fault cache = no_fault"
    and "reproducible info"
  shows "\<exists>cache'. Update cache (Some info) = Return (None, cache')
           \<and> Get cache' (n_Id info)
               = Inr (info\<lparr>n_Reputation := Some (reputation_read_back info)\<rparr>)
           \<and> (n_Reputation info \<noteq> None \<longrightarrow> Get cache' (n_Id info) = Inr info)"
proof -
  let ?c = "cache\<lparr>rows := rows cache @ [created_row info]\<rparr>"
  have "NodeId (created_row info) = Bytes (n_Id info)"
    by (simp add: created_row_def Let_def)
  with assms(2) have "find (\<lambda>r. NodeId r = Bytes (n_Id info)) (rows ?c) = Some (created_row info)"
    by (simp add: find_append_new)
  with assms(1,3) have "Get ?c (n_Id info) = convertOverlayNode (Some (created_row info))"
    by (simp add: Get_def Get_OverlayCacheNode_By_NodeId_def no_fault_def)
  with convert_created_row [OF assms(4)]
  have g: "Get ?c (n_Id info) = Inr (info\<lparr>n_Reputation := Some (reputation_read_back info)\<rparr>)"
    by simp
  have "info\<lparr>n_Reputation := Some (reputation_read_back info)\<rparr> = info"
    if "n_Reputation info \<noteq> None"
    using that by (cases info) (auto simp: reputation_read_back_def)
  with g Update_creates [OF assms(1-3)] show ?thesis by simp
qed

theorem upsert_get_roundtrip_witness:
  "Update (example_db []) (Some (full_node 1)) = Return (None, example_db [full_row 1])
   \<and> Get (example_db [full_row 1]) (mkID 1) = Inr (full_node 1)"
proof -
  have u: "Update (example_db []) (Some (full_node 1)) = Return (None, example_db [full_row 1])"
    using Update_example_fresh [of 1 "full_node 1"] by (simp add: created_full) (simp add: full_node_def)
  have "reproducible (full_node 1)" "n_Reputation (full_node 1) \<noteq> None"
    "\<not> IsZero (n_Id (full_node 1))"
    by (simp_all add: reproducible_def full_node_def IsZero_mkID)
  moreover have "rows (example_db []) = []" "fault (example_db []) = no_fault"
    by (simp_all add: example_db_def)
  ultimately obtain cache' where
    c: "Update (example_db []) (Some (full_node 1)) = Return (None, cache')"
      "Get cache' (n_Id (full_node 1)) = Inr (full_node 1)"
    using upsert_get_roundtrip [of "full_node 1" "example_db []"] by auto
  have "n_Id (full_node 1) = mkID 1" by (simp add: full_node_def)
  with c u show ?thesis by simp
qed

text \<open>
  Claim C1 as stated fails for an input with no optional sub-group: the create branch
  stores zero statistics (latency 0, which is not the negative sentinel), and \<^verbatim>\<open>Get\<close>
  returns a zero-valued reputation, not an absent one.
\<close>

theorem upsert_get_absent_counterexample:
  "Update (example_db []) (Some (absent_node 1)) = Return (None, example_db [absent_row 1])
   \<and> Get (example_db [absent_row 1]) (mkID 1)
       = Inr ((absent_node 1)\<lparr>n_Reputation := Some (zero_NodeStats\<lparr>s_NodeId := mkID 1\<rparr>)\<rparr>)
   \<and> Get (example_db [absent_row 1]) (mkID 1) \<noteq> Inr (absent_node 1)"
proof -
  have u: "Update (example_db []) (Some (absent_node 1)) = Return (None, example_db [absent_row 1])"
    using Update_example_fresh [of 1 "absent_node 1"]
    by (simp add: created_absent) (simp add: absent_node_def)
  have g: "Get (example_db [absent_row 1]) (mkID 1)
       = Inr ((absent_node 1)\<lparr>n_Reputation := Some (zero_NodeStats\<lparr>s_NodeId := mkID 1\<rparr>)\<rparr>)"
    by (simp add: Get_def IsZero_mkID Get_OverlayCacheNode_By_NodeId_def example_db_def
        no_fault_def absent_row_def convertOverlayNode_def NodeIDFromBytes_Bytes absent_node_def
        zero_NodeStats_def)
  have "(absent_node 1)\<lparr>n_Reputation := Some (zero_NodeStats\<lparr>s_NodeId := mkID 1\<rparr>)\<rparr>
      \<noteq> absent_node 1"
    by (simp add: absent_node_def)
  with u g show ?thesis by simp
qed

text \<open>
  Claim C2. The claim does not hold of the code. For a stored node and a message that carries only
  resource floors, the update branch dereferences the absent reputation and panics; the
  floors are not written. With the stored reputation supplied as well, the update writes
  the floors but overwrites the stored address with the empty one.
\<close>

theorem Update_floors_only_diverges:
  "Update (example_db [example_row 1 9]) (Some (floors_only_node 1)) = Panic
   \<and> Update (example_db [example_row 1 9])
        (Some ((floors_only_node 1)\<lparr>n_Reputation := Some (stored_stats 1 9)\<rparr>))
      = Return (None,
          example_db [(example_row 1 9)\<lparr>Address := [], FreeBandwidth := 50, FreeDisk := 60\<rparr>])"
  by (simp add: Update_def floors_only_node_def IsZero_mkID db_Open_def example_db_def
      no_fault_def Get_OverlayCacheNode_By_NodeId_def example_row_sel
      Update_OverlayCacheNode_By_NodeId_def tx_Commit_def Error_Wrap_def apply_update_def
      set_field_def zero_NodeAddress_def stored_stats_def Let_def)
    (simp add: example_row_def)

end
